theory Spec2Isabelle
  imports Complex_Main
begin

section \<open>Python values and the primitives the pipeline uses\<close>

text \<open>
  The program (\<^verbatim>\<open>src/main.py\<close>) works on parsed JSON: the values that
  \<^verbatim>\<open>Response.json()\<close> returns. A JSON object is a Python dict, kept here as an
  association list of its items in insertion order (keys distinct, as in a dict);
  \<^verbatim>\<open>None\<close> is \<open>JNull\<close>. JSON floats are only carried through by the program, they are
  kept as rationals.
\<close>

datatype json =
    JNull
  | JBool bool
  | JInt int
  | JFloat rat
  | JStr string
  | JList "json list"
  | JObj "(string \<times> json) list"

text \<open>
  The exceptions that can leave a function of the program. \<open>HTTPException\<close> carries
  \<^verbatim>\<open>status_code\<close> and \<^verbatim>\<open>detail\<close>; the others are uncaught Python exceptions.
\<close>

datatype exn =
    AttributeError
  | TypeError
  | IndexError
  | JSONDecodeError string
  | OSError
  | HTTPException nat string

definition andThen :: "exn + 'a \<Rightarrow> ('a \<Rightarrow> exn + 'b) \<Rightarrow> exn + 'b" where
  "andThen r f = (case r of Inl e \<Rightarrow> Inl e | Inr v \<Rightarrow> f v)"

text \<open>\<^verbatim>\<open>x.get(k, d)\<close>: only a dict has the method; any other value raises AttributeError.\<close>

fun py_get :: "json \<Rightarrow> string \<Rightarrow> json \<Rightarrow> exn + json" where
  "py_get (JObj kvs) k d = Inr (case map_of kvs k of None \<Rightarrow> d | Some v \<Rightarrow> v)"
| "py_get JNull k d = Inl AttributeError"
| "py_get (JBool b) k d = Inl AttributeError"
| "py_get (JInt n) k d = Inl AttributeError"
| "py_get (JFloat q) k d = Inl AttributeError"
| "py_get (JStr s) k d = Inl AttributeError"
| "py_get (JList xs) k d = Inl AttributeError"

text \<open>Truth value of \<^verbatim>\<open>not x\<close> / \<^verbatim>\<open>if x\<close>.\<close>

fun truthy :: "json \<Rightarrow> bool" where
  "truthy JNull = False"
| "truthy (JBool b) = b"
| "truthy (JInt n) = (n \<noteq> 0)"
| "truthy (JFloat q) = (q \<noteq> 0)"
| "truthy (JStr s) = (s \<noteq> [])"
| "truthy (JList xs) = (xs \<noteq> [])"
| "truthy (JObj kvs) = (kvs \<noteq> [])"

text \<open>
  \<^verbatim>\<open>for c in x\<close> / \<^verbatim>\<open>enumerate(x)\<close>: a list yields its elements, a str its characters
  (each a str of length one), a dict its keys; anything else raises TypeError.
\<close>

fun py_iter :: "json \<Rightarrow> exn + json list" where
  "py_iter (JList xs) = Inr xs"
| "py_iter (JStr s) = Inr (map (\<lambda>c. JStr [c]) s)"
| "py_iter (JObj kvs) = Inr (map (\<lambda>kv. JStr (fst kv)) kvs)"
| "py_iter JNull = Inl TypeError"
| "py_iter (JBool b) = Inl TypeError"
| "py_iter (JInt n) = Inl TypeError"
| "py_iter (JFloat q) = Inl TypeError"

text \<open>\<^verbatim>\<open>isinstance(x, list)\<close> and \<^verbatim>\<open>len(x)\<close> of a list.\<close>

fun is_list :: "json \<Rightarrow> bool" where
  "is_list (JList xs) = True"
| "is_list _ = False"

fun list_items :: "json \<Rightarrow> json list" where
  "list_items (JList xs) = xs"
| "list_items _ = []"

text \<open>\<^verbatim>\<open>x[i]\<close> for a list \<open>x\<close> and \<open>i \<ge> 0\<close>.\<close>

definition py_index :: "json \<Rightarrow> nat \<Rightarrow> exn + json" where
  "py_index x i =
     (if is_list x
      then (if i < length (list_items x) then Inr (list_items x ! i) else Inl IndexError)
      else Inl TypeError)"

text \<open>\<^verbatim>\<open>s + x\<close> for a str \<open>s\<close>: \<open>x\<close> must be a str.\<close>

fun str_concat :: "string \<Rightarrow> json \<Rightarrow> exn + string" where
  "str_concat s (JStr t) = Inr (s @ t)"
| "str_concat s _ = Inl TypeError"

section \<open>Data model\<close>

text \<open>
  The dicts the program builds have fixed keys, so they are records. The Post dict
  \<^verbatim>\<open>{"id", "title", "permalink", "index_in_hot"}\<close>: \<open>id\<close> and \<open>title\<close> are whatever
  \<^verbatim>\<open>data.get\<close> gave (possibly \<open>None\<close>), \<open>permalink\<close> is the result of a str
  concatenation, \<open>index_in_hot\<close> the counter of \<^verbatim>\<open>enumerate(children, start=1)\<close>.
\<close>

record reddit_post =
  post_id :: json
  title :: json
  permalink :: string
  index_in_hot :: nat

record comment =
  comment_id :: json
  author :: json
  body :: json
  score :: json
  created_utc :: json
  parent_id :: json
  is_submitter :: json

text \<open>
  An item of \<^verbatim>\<open>results\<close>. The keys \<^verbatim>\<open>error\<close>, \<^verbatim>\<open>note\<close> and
  \<^verbatim>\<open>comments_count_returned\<close> are present in some of the three shapes only.
\<close>

record post_result =
  post :: reddit_post
  comments :: "comment list"
  error :: "string option"
  note_text :: "string option"
  comments_count_returned :: "nat option"

datatype status = ok | fetch_error string | unexpected_shape

text \<open>
  The status of the specification, read off the keys of the item: an \<^verbatim>\<open>error\<close> key is
  a failed fetch, a \<^verbatim>\<open>comments_count_returned\<close> key a flattened response, and the
  item with neither is the one appended for an unexpected response.
\<close>

definition status_of :: "post_result \<Rightarrow> status" where
  "status_of r =
     (case error r of
        Some m \<Rightarrow> fetch_error m
      | None \<Rightarrow> (case comments_count_returned r of None \<Rightarrow> unexpected_shape | Some n \<Rightarrow> ok))"

text \<open>
  The parameters of the endpoint, after the framework validated them. The validation
  of \<^verbatim>\<open>polite_delay_ms\<close> (\<^verbatim>\<open>ge=0\<close>) leaves no negative delay, so it is a natural
  number; the other numbers only travel into the requests.
\<close>

record params =
  subreddit :: string
  posts_limit :: int
  comments_limit :: int
  depth :: int
  sort_mode :: string
  polite_delay_ms :: nat

type_synonym csv_row = "(string \<times> json) list"

text \<open>
  What the run does to the outside world, in order: the two kinds of request, the
  calls of \<^verbatim>\<open>time.sleep\<close> (with the delay in milliseconds) and the file written.
\<close>

datatype event =
    ListingRequest string int
  | CommentsRequest string json int int string
  | Sleep nat
  | WriteCsv string "string list" "csv_row list"

text \<open>
  The outcome of \<^verbatim>\<open>requests.get\<close>: it raises (an \<^verbatim>\<open>HTTPError\<close> or any other
  exception, with its text), or it returns a response. Of a response the program uses
  the status code, the text of the \<^verbatim>\<open>HTTPError\<close> that \<^verbatim>\<open>raise_for_status\<close> raises
  for it, and \<^verbatim>\<open>json()\<close>, which raises on a body that is not JSON (\<open>Inl\<close>, with the
  text of the exception). The header and the timeouts of the requests are constants of
  the program and are left out of the requests recorded.
\<close>

datatype exn_class = HTTPErrorClass | OtherException

record response =
  status_code :: nat
  http_error_text :: string
  json_body :: "string + json"

datatype get_outcome = GetRaised exn_class string | GotResponse response

text \<open>
  The environment of a run: the upstream service (the answer to a comment request may
  depend on which request of the run it is, given by the index of the post), the clock
  read by \<^verbatim>\<open>_timestamp\<close>, and whether the output file can be written.
\<close>

record env =
  listing_net :: "string \<Rightarrow> int \<Rightarrow> get_outcome"
  comments_net :: "nat \<Rightarrow> string \<Rightarrow> json \<Rightarrow> int \<Rightarrow> int \<Rightarrow> string \<Rightarrow> get_outcome"
  clock :: string
  disk_ok :: bool

record summary =
  summary_subreddit :: string
  posts_processed :: nat
  comments_total_returned :: nat
  csv_saved_to :: string
  max_posts_per_hot_request :: nat

section \<open>The HTTP layer\<close>

text \<open>\<^verbatim>\<open>Response.raise_for_status\<close> raises for the codes 400 to 599.\<close>

definition raises_for_status :: "response \<Rightarrow> bool" where
  "raises_for_status r = (400 \<le> status_code r \<and> status_code r < 600)"

text \<open>
  Lines 104 to 108: the \<^verbatim>\<open>try\<close> block of a comment fetch. \<open>Inl m\<close> is an exception
  with text \<open>m\<close> caught by \<^verbatim>\<open>except Exception as e\<close>, \<open>Inr j\<close> is \<^verbatim>\<open>comments_json\<close>.
\<close>

definition fetch_comments :: "env \<Rightarrow> params \<Rightarrow> nat \<Rightarrow> json \<Rightarrow> string + json" where
  "fetch_comments E P idx pid =
     (case comments_net E idx (subreddit P) pid (comments_limit P) (depth P) (sort_mode P) of
        GetRaised c m \<Rightarrow> Inl m
      | GotResponse rc \<Rightarrow>
          if raises_for_status rc then Inl (http_error_text rc) else json_body rc)"

section \<open>The Flattener (lines 128 to 147)\<close>

definition comment_of :: "json \<Rightarrow> exn + comment" where
  "comment_of cd =
     andThen (py_get cd ''id'' JNull) (\<lambda>i.
     andThen (py_get cd ''author'' JNull) (\<lambda>a.
     andThen (py_get cd ''body'' JNull) (\<lambda>b.
     andThen (py_get cd ''score'' JNull) (\<lambda>s.
     andThen (py_get cd ''created_utc'' JNull) (\<lambda>u.
     andThen (py_get cd ''parent_id'' JNull) (\<lambda>p.
     andThen (py_get cd ''is_submitter'' JNull) (\<lambda>m.
       Inr \<lparr>comment_id = i, author = a, body = b, score = s, created_utc = u,
            parent_id = p, is_submitter = m\<rparr>)))))))"

fun extract_loop :: "json list \<Rightarrow> comment list \<Rightarrow> exn + comment list" where
  "extract_loop [] extracted = Inr extracted"
| "extract_loop (c # cs) extracted =
     andThen (py_get c ''kind'' JNull) (\<lambda>k.
       if k \<noteq> JStr ''t1'' then extract_loop cs extracted
       else andThen (py_get c ''data'' (JObj [])) (\<lambda>cd.
            andThen (comment_of cd) (\<lambda>cm. extract_loop cs (extracted @ [cm]))))"

definition comments_children :: "json \<Rightarrow> exn + json" where
  "comments_children comments_json =
     andThen (py_index comments_json 1) (\<lambda>second.
     andThen (py_get second ''data'' (JObj [])) (\<lambda>d.
       py_get d ''children'' (JList [])))"

definition flatten :: "json \<Rightarrow> exn + comment list" where
  "flatten comments_json =
     andThen (comments_children comments_json) (\<lambda>ch.
     andThen (py_iter ch) (\<lambda>items. extract_loop items []))"

section \<open>The Orchestrator\<close>

definition host :: string where
  "host = ''https://www.reddit.com''"

text \<open>Lines 92 to 95 and the Post dict of lines 110, 120 and 150.\<close>

definition post_of_child :: "nat \<Rightarrow> json \<Rightarrow> exn + reddit_post" where
  "post_of_child idx child =
     andThen (py_get child ''data'' (JObj [])) (\<lambda>data.
     andThen (py_get data ''id'' JNull) (\<lambda>pid.
     andThen (py_get data ''title'' JNull) (\<lambda>ptitle.
     andThen (py_get data ''permalink'' (JStr [])) (\<lambda>pl.
     andThen (str_concat host pl) (\<lambda>post_permalink.
       Inr \<lparr>post_id = pid, title = ptitle, permalink = post_permalink,
            index_in_hot = idx\<rparr>)))))"

text \<open>\<^verbatim>\<open>if polite_delay_ms: time.sleep(polite_delay_ms / 1000.0)\<close>\<close>

definition sleep_events :: "params \<Rightarrow> event list" where
  "sleep_events P = (if polite_delay_ms P \<noteq> 0 then [Sleep (polite_delay_ms P)] else [])"

definition a_acute :: char where "a_acute = CHR 0xE1"
definition a_tilde :: char where "a_tilde = CHR 0xE3"

definition fetch_error_result :: "reddit_post \<Rightarrow> string \<Rightarrow> post_result" where
  "fetch_error_result p m =
     \<lparr>post = p, comments = [],
      error = Some (''Erro ao buscar coment'' @ [a_acute] @ ''rios: '' @ m),
      note_text = None, comments_count_returned = None\<rparr>"

definition unexpected_result :: "reddit_post \<Rightarrow> post_result" where
  "unexpected_result p =
     \<lparr>post = p, comments = [], error = None,
      note_text = Some (''Resposta inesperada da API de coment'' @ [a_acute] @ ''rios.''),
      comments_count_returned = None\<rparr>"

definition ok_result :: "reddit_post \<Rightarrow> comment list \<Rightarrow> post_result" where
  "ok_result p extracted =
     \<lparr>post = p, comments = extracted, error = None,
      note_text = Some (''Somente a primeira leva; MoreComments n'' @ [a_tilde] @ ''o expandidos.''),
      comments_count_returned = Some (length extracted)\<rparr>"

definition request_of :: "params \<Rightarrow> reddit_post \<Rightarrow> event" where
  "request_of P p =
     CommentsRequest (subreddit P) (post_id p) (comments_limit P) (depth P) (sort_mode P)"

text \<open>
  One iteration of the loop of lines 91 to 162: the item appended to \<^verbatim>\<open>results\<close>, or
  the exception that leaves the loop, and the events of the iteration.
\<close>

definition process_post :: "env \<Rightarrow> params \<Rightarrow> nat \<Rightarrow> json \<Rightarrow> (exn + post_result) \<times> event list" where
  "process_post E P idx child =
     (case post_of_child idx child of
        Inl e \<Rightarrow> (Inl e, [])
      | Inr p \<Rightarrow>
          (case fetch_comments E P idx (post_id p) of
             Inl m \<Rightarrow> (Inr (fetch_error_result p m), request_of P p # sleep_events P)
           | Inr comments_json \<Rightarrow>
               if \<not> is_list comments_json \<or> length (list_items comments_json) < 2
               then (Inr (unexpected_result p), request_of P p # sleep_events P)
               else (case flatten comments_json of
                       Inl e \<Rightarrow> (Inl e, [request_of P p])
                     | Inr extracted \<Rightarrow>
                         (Inr (ok_result p extracted), request_of P p # sleep_events P))))"

fun posts_loop ::
  "env \<Rightarrow> params \<Rightarrow> nat \<Rightarrow> json list \<Rightarrow> post_result list \<Rightarrow> event list
     \<Rightarrow> (exn + post_result list) \<times> event list" where
  "posts_loop E P idx [] results tr = (Inr results, tr)"
| "posts_loop E P idx (child # rest) results tr =
     (case process_post E P idx child of
        (Inl e, t) \<Rightarrow> (Inl e, tr @ t)
      | (Inr r, t) \<Rightarrow> posts_loop E P (Suc idx) rest (results @ [r]) (tr @ t))"

section \<open>The Tabular Writer (lines 17 to 51)\<close>

definition fields :: "string list" where
  "fields = [''subreddit'', ''post_id'', ''post_title'', ''post_index_in_hot'',
             ''post_permalink'', ''comment_id'', ''author'', ''body'', ''score'',
             ''created_utc'', ''parent_id'', ''is_submitter'']"

definition csv_row_of :: "string \<Rightarrow> reddit_post \<Rightarrow> comment \<Rightarrow> csv_row" where
  "csv_row_of sr p c =
     [(''subreddit'', JStr sr),
      (''post_id'', post_id p),
      (''post_title'', title p),
      (''post_index_in_hot'', JInt (int (index_in_hot p))),
      (''post_permalink'', JStr (permalink p)),
      (''comment_id'', comment_id c),
      (''author'', author c),
      (''body'', body c),
      (''score'', score c),
      (''created_utc'', created_utc c),
      (''parent_id'', parent_id c),
      (''is_submitter'', is_submitter c)]"

definition item_rows :: "string \<Rightarrow> post_result \<Rightarrow> csv_row list" where
  "item_rows sr item = map (csv_row_of sr (post item)) (comments item)"

definition csv_rows :: "string \<Rightarrow> post_result list \<Rightarrow> csv_row list" where
  "csv_rows sr results = concat (map (item_rows sr) results)"

text \<open>
  Line 25: the name of the file, \<^verbatim>\<open>DATA_DIR / f"reddit_{subreddit}_comments_{_timestamp()}.csv"\<close>.
  A path parameter holds no \<^verbatim>\<open>/\<close>, so joining the path is concatenation. Opening or
  writing the file may fail, which \<open>disk_ok\<close> decides; the writer that returns has
  written every row.
\<close>

definition csv_name :: "env \<Rightarrow> string \<Rightarrow> string" where
  "csv_name E sr = ''data/reddit_'' @ sr @ ''_comments_'' @ clock E @ ''.csv''"

definition save_comments_csv :: "env \<Rightarrow> string \<Rightarrow> post_result list \<Rightarrow> (exn + string) \<times> event list" where
  "save_comments_csv E sr results =
     (if disk_ok E
      then (Inr (csv_name E sr), [WriteCsv (csv_name E sr) fields (csv_rows sr results)])
      else (Inl OSError, []))"

section \<open>The endpoint (lines 58 to 175)\<close>

text \<open>Lines 74 to 82: the listing fetch, \<open>Inr\<close> the response that passed.\<close>

definition fetch_listing :: "env \<Rightarrow> params \<Rightarrow> exn + response" where
  "fetch_listing E P =
     (case listing_net E (subreddit P) (posts_limit P) of
        GetRaised HTTPErrorClass m \<Rightarrow> Inl (HTTPException 500 (''Erro HTTP ao listar posts: '' @ m))
      | GetRaised OtherException m \<Rightarrow> Inl (HTTPException 500 (''Erro ao listar posts: '' @ m))
      | GotResponse r \<Rightarrow>
          if raises_for_status r
          then Inl (HTTPException (status_code r) (''Erro HTTP ao listar posts: '' @ http_error_text r))
          else Inr r)"

text \<open>Lines 84 to 87: the entries of the listing.\<close>

definition listing_children :: "response \<Rightarrow> exn + json" where
  "listing_children r =
     (case json_body r of
        Inl m \<Rightarrow> Inl (JSONDecodeError m)
      | Inr posts_json \<Rightarrow>
          andThen (py_get posts_json ''data'' (JObj [])) (\<lambda>d.
          andThen (py_get d ''children'' (JList [])) (\<lambda>children.
            if \<not> truthy children
            then Inl (HTTPException 404 ''Nenhum post encontrado nesse subreddit.'')
            else Inr children)))"

definition make_summary :: "params \<Rightarrow> post_result list \<Rightarrow> string \<Rightarrow> summary" where
  "make_summary P results csv_path =
     \<lparr>summary_subreddit = subreddit P,
      posts_processed = length results,
      comments_total_returned = sum_list (map (\<lambda>x. length (comments x)) results),
      csv_saved_to = csv_path,
      max_posts_per_hot_request = 100\<rparr>"

text \<open>
  The whole run: the summary returned or the exception raised, the sequence of
  \<^verbatim>\<open>results\<close> as it was when the run ended its loop, and the events in order.
\<close>

definition collect :: "env \<Rightarrow> params \<Rightarrow> (exn + post_result list) \<times> event list" where
  "collect E P =
     (case fetch_listing E P of
        Inl e \<Rightarrow> (Inl e, [ListingRequest (subreddit P) (posts_limit P)])
      | Inr r \<Rightarrow>
          (case andThen (listing_children r) py_iter of
             Inl e \<Rightarrow> (Inl e, [ListingRequest (subreddit P) (posts_limit P)])
           | Inr children \<Rightarrow>
               posts_loop E P 1 children [] [ListingRequest (subreddit P) (posts_limit P)]))"

definition reddit_hot_comments_to_csv :: "env \<Rightarrow> params \<Rightarrow> (exn + summary) \<times> event list" where
  "reddit_hot_comments_to_csv E P =
     (case collect E P of
        (Inl e, tr) \<Rightarrow> (Inl e, tr)
      | (Inr results, tr) \<Rightarrow>
          (case save_comments_csv E (subreddit P) results of
             (Inl e, t) \<Rightarrow> (Inl e, tr @ t)
           | (Inr csv_path, t) \<Rightarrow> (Inr (make_summary P results csv_path), tr @ t)))"

section \<open>The shape of a comment response, in the words of the specification\<close>

text \<open>
  The specification describes the Flattener by the nodes it keeps and the fields it
  copies. These definitions follow that description; the theorems below compare them
  with \<open>flatten\<close>, which follows the code.
\<close>

definition field_or_null :: "(string \<times> json) list \<Rightarrow> string \<Rightarrow> json" where
  "field_or_null kvs k = (case map_of kvs k of None \<Rightarrow> JNull | Some v \<Rightarrow> v)"

fun spec_is_comment_node :: "json \<Rightarrow> bool" where
  "spec_is_comment_node (JObj kvs) = (map_of kvs ''kind'' = Some (JStr ''t1''))"
| "spec_is_comment_node _ = False"

fun spec_node_data :: "json \<Rightarrow> (string \<times> json) list" where
  "spec_node_data (JObj kvs) =
     (case map_of kvs ''data'' of Some (JObj d) \<Rightarrow> d | _ \<Rightarrow> [])"
| "spec_node_data _ = []"

definition spec_comment_of_node :: "json \<Rightarrow> comment" where
  "spec_comment_of_node c =
     \<lparr>comment_id = field_or_null (spec_node_data c) ''id'',
      author = field_or_null (spec_node_data c) ''author'',
      body = field_or_null (spec_node_data c) ''body'',
      score = field_or_null (spec_node_data c) ''score'',
      created_utc = field_or_null (spec_node_data c) ''created_utc'',
      parent_id = field_or_null (spec_node_data c) ''parent_id'',
      is_submitter = field_or_null (spec_node_data c) ''is_submitter''\<rparr>"

text \<open>
  A node the code can read: an object, and when it is a comment node its \<open>data\<close> is
  missing or an object.
\<close>

fun readable_node :: "json \<Rightarrow> bool" where
  "readable_node (JObj kvs) =
     (map_of kvs ''kind'' = Some (JStr ''t1'') \<longrightarrow>
        (case map_of kvs ''data'' of None \<Rightarrow> True | Some (JObj d) \<Rightarrow> True | Some _ \<Rightarrow> False))"
| "readable_node _ = False"

section \<open>A concrete run\<close>

text \<open>
  A listing of three posts (the second without a permalink). The first comment request
  is answered with two comments around a continuation marker, the second times out,
  the third is answered with a sequence of one element.
\<close>

definition demo_post_a :: json where
  "demo_post_a = JObj [(''data'', JObj [(''id'', JStr ''a''), (''title'', JStr ''A''),
                                         (''permalink'', JStr ''/r/x/a'')])]"

definition demo_post_b :: json where
  "demo_post_b = JObj [(''data'', JObj [(''id'', JStr ''b''), (''title'', JStr ''B'')])]"

definition demo_post_c :: json where
  "demo_post_c = JObj [(''data'', JObj [(''id'', JStr ''c''), (''title'', JNull),
                                         (''permalink'', JStr ''/r/x/c'')])]"

definition demo_listing :: json where
  "demo_listing =
     JObj [(''data'', JObj [(''children'', JList [demo_post_a, demo_post_b, demo_post_c])])]"

definition demo_node_1 :: json where
  "demo_node_1 = JObj [(''kind'', JStr ''t1''),
     (''data'', JObj [(''id'', JStr ''c1''), (''author'', JStr ''ann''), (''body'', JStr ''hi''),
                      (''score'', JInt 3), (''created_utc'', JFloat 1700000000),
                      (''parent_id'', JStr ''t3_a''), (''is_submitter'', JBool False)])]"

definition demo_node_more :: json where
  "demo_node_more = JObj [(''kind'', JStr ''more''), (''data'', JObj [(''count'', JInt 5)])]"

definition demo_node_2 :: json where
  "demo_node_2 = JObj [(''kind'', JStr ''t1''), (''data'', JObj [(''id'', JStr ''c2'')])]"

definition demo_forest :: json where
  "demo_forest = JList [JObj [],
     JObj [(''data'', JObj [(''children'', JList [demo_node_1, demo_node_more, demo_node_2])])]]"

definition ok_response :: "json \<Rightarrow> get_outcome" where
  "ok_response j = GotResponse \<lparr>status_code = 200, http_error_text = [], json_body = Inr j\<rparr>"

definition demo_env :: env where
  "demo_env =
     \<lparr>listing_net = (\<lambda>sr lim. ok_response demo_listing),
      comments_net = (\<lambda>idx sr pid lim dep srt.
         if idx = 1 then ok_response demo_forest
         else if idx = 2 then GetRaised OtherException ''timed out''
         else ok_response (JList [JObj []])),
      clock = ''2024-01-01_00-00-00'',
      disk_ok = True\<rparr>"

definition demo_params :: params where
  "demo_params =
     \<lparr>subreddit = ''x'', posts_limit = 2, comments_limit = 200, depth = 2,
      sort_mode = ''confidence'', polite_delay_ms = 250\<rparr>"

text \<open>The same service with another answer to the listing request.\<close>

definition listing_env :: "get_outcome \<Rightarrow> env" where
  "listing_env out = demo_env\<lparr>listing_net := (\<lambda>sr lim. out)\<rparr>"

text \<open>The same service answering every comment request with \<open>out\<close>.\<close>

definition comments_env :: "get_outcome \<Rightarrow> env" where
  "comments_env out = demo_env\<lparr>comments_net := (\<lambda>idx sr pid lim dep srt. out)\<rparr>"

definition demo_pa :: reddit_post where
  "demo_pa = \<lparr>post_id = JStr ''a'', title = JStr ''A'',
              permalink = ''https://www.reddit.com/r/x/a'', index_in_hot = 1\<rparr>"

definition demo_pb :: reddit_post where
  "demo_pb = \<lparr>post_id = JStr ''b'', title = JStr ''B'',
              permalink = ''https://www.reddit.com'', index_in_hot = 2\<rparr>"

definition demo_pc :: reddit_post where
  "demo_pc = \<lparr>post_id = JStr ''c'', title = JNull,
              permalink = ''https://www.reddit.com/r/x/c'', index_in_hot = 3\<rparr>"

definition demo_c1 :: comment where
  "demo_c1 = \<lparr>comment_id = JStr ''c1'', author = JStr ''ann'', body = JStr ''hi'',
              score = JInt 3, created_utc = JFloat 1700000000, parent_id = JStr ''t3_a'',
              is_submitter = JBool False\<rparr>"

definition demo_c2 :: comment where
  "demo_c2 = \<lparr>comment_id = JStr ''c2'', author = JNull, body = JNull, score = JNull,
              created_utc = JNull, parent_id = JNull, is_submitter = JNull\<rparr>"

definition demo_results :: "post_result list" where
  "demo_results =
     [ok_result demo_pa [demo_c1, demo_c2],
      fetch_error_result demo_pb ''timed out'',
      unexpected_result demo_pc]"

definition demo_trace :: "event list" where
  "demo_trace =
     [ListingRequest ''x'' 2,
      CommentsRequest ''x'' (JStr ''a'') 200 2 ''confidence'', Sleep 250,
      CommentsRequest ''x'' (JStr ''b'') 200 2 ''confidence'', Sleep 250,
      CommentsRequest ''x'' (JStr ''c'') 200 2 ''confidence'', Sleep 250]"

definition demo_csv :: string where
  "demo_csv = ''data/reddit_x_comments_2024-01-01_00-00-00.csv''"

definition demo_summary :: summary where
  "demo_summary =
     \<lparr>summary_subreddit = ''x'', posts_processed = 3, comments_total_returned = 2,
      csv_saved_to = demo_csv, max_posts_per_hot_request = 100\<rparr>"

definition demo_write :: event where
  "demo_write =
     WriteCsv demo_csv fields [csv_row_of ''x'' demo_pa demo_c1, csv_row_of ''x'' demo_pa demo_c2]"

text \<open>Answers of a service that is down, and of one that has nothing to list.\<close>

definition down_response :: response where
  "down_response =
     \<lparr>status_code = 503, http_error_text = ''503 Server Error'', json_body = Inl ''no JSON''\<rparr>"

definition empty_listing :: json where
  "empty_listing = JObj [(''data'', JObj [(''children'', JList [])])]"

text \<open>A comment response of two elements whose second element is not an object.\<close>

definition drifted_forest :: json where
  "drifted_forest = JList [JNull, JNull]"

section \<open>Basic facts\<close>

lemma andThen_simps [simp]: "andThen (Inl e) f = Inl e" "andThen (Inr v) f = f v"
  by (simp_all add: andThen_def)

lemma andThen_Inr_iff: "andThen r f = Inr y \<longleftrightarrow> (\<exists>v. r = Inr v \<and> f v = Inr y)"
  by (cases r) simp_all

lemma py_get_Inr: "py_get x k d = Inr v \<Longrightarrow> \<exists>kvs. x = JObj kvs"
  by (cases x) simp_all

lemma str_concat_Inr: "str_concat s x = Inr t \<Longrightarrow> \<exists>u. x = JStr u \<and> t = s @ u"
  by (cases x) auto

section \<open>The concrete run, evaluated\<close>

lemma demo_posts:
  "post_of_child (Suc 0) demo_post_a = Inr demo_pa"
  "post_of_child (Suc (Suc 0)) demo_post_b = Inr demo_pb"
  "post_of_child (Suc (Suc (Suc 0))) demo_post_c = Inr demo_pc"
  by (simp_all add: post_of_child_def demo_post_a_def demo_post_b_def demo_post_c_def
        demo_pa_def demo_pb_def demo_pc_def host_def numeral_2_eq_2 numeral_3_eq_3)

lemma demo_flatten: "flatten demo_forest = Inr [demo_c1, demo_c2]"
  by (simp add: flatten_def comments_children_def py_index_def demo_forest_def demo_node_1_def
        demo_node_2_def demo_node_more_def comment_of_def demo_c1_def demo_c2_def)

lemma demo_fetches:
  "fetch_comments demo_env demo_params (Suc 0) pid = Inr demo_forest"
  "fetch_comments demo_env demo_params (Suc (Suc 0)) pid = Inl ''timed out''"
  "fetch_comments demo_env demo_params (Suc (Suc (Suc 0))) pid = Inr (JList [JObj []])"
  by (simp_all add: fetch_comments_def demo_env_def ok_response_def raises_for_status_def
        numeral_2_eq_2)

lemma demo_effects:
  "request_of demo_params demo_pa = CommentsRequest ''x'' (JStr ''a'') 200 2 ''confidence''"
  "request_of demo_params demo_pb = CommentsRequest ''x'' (JStr ''b'') 200 2 ''confidence''"
  "request_of demo_params demo_pc = CommentsRequest ''x'' (JStr ''c'') 200 2 ''confidence''"
  "sleep_events demo_params = [Sleep 250]"
  by (simp_all add: request_of_def sleep_events_def demo_params_def demo_pa_def demo_pb_def
        demo_pc_def)

lemma demo_step_a:
  "process_post demo_env demo_params (Suc 0) demo_post_a =
     (Inr (ok_result demo_pa [demo_c1, demo_c2]),
      [CommentsRequest ''x'' (JStr ''a'') 200 2 ''confidence'', Sleep 250])"
proof -
  have "is_list demo_forest" "length (list_items demo_forest) = 2"
    by (simp_all add: demo_forest_def)
  then show ?thesis
    by (simp add: process_post_def demo_posts demo_fetches demo_flatten demo_effects)
qed

lemma demo_step_b:
  "process_post demo_env demo_params (Suc (Suc 0)) demo_post_b =
     (Inr (fetch_error_result demo_pb ''timed out''),
      [CommentsRequest ''x'' (JStr ''b'') 200 2 ''confidence'', Sleep 250])"
  by (simp add: process_post_def demo_posts demo_fetches demo_effects)

lemma demo_step_c:
  "process_post demo_env demo_params (Suc (Suc (Suc 0))) demo_post_c =
     (Inr (unexpected_result demo_pc),
      [CommentsRequest ''x'' (JStr ''c'') 200 2 ''confidence'', Sleep 250])"
  by (simp add: process_post_def demo_posts demo_fetches demo_effects)

lemma demo_loop:
  "posts_loop demo_env demo_params (Suc 0) [demo_post_a, demo_post_b, demo_post_c] [] tr =
     (Inr demo_results, tr @ tl demo_trace)"
  by (simp add: demo_step_a demo_step_b demo_step_c demo_results_def demo_trace_def)

lemma demo_fetch_listing:
  "fetch_listing demo_env demo_params =
     Inr \<lparr>status_code = 200, http_error_text = [], json_body = Inr demo_listing\<rparr>"
  by (simp add: fetch_listing_def demo_env_def ok_response_def raises_for_status_def)

lemma demo_listing_children:
  "listing_children \<lparr>status_code = 200, http_error_text = [], json_body = Inr demo_listing\<rparr>
     = Inr (JList [demo_post_a, demo_post_b, demo_post_c])"
  by (simp add: listing_children_def demo_listing_def)

lemma demo_collect: "collect demo_env demo_params = (Inr demo_results, demo_trace)"
  by (simp add: collect_def demo_fetch_listing demo_listing_children demo_loop
        del: posts_loop.simps)
     (simp add: demo_trace_def demo_params_def)

lemma demo_save:
  "save_comments_csv demo_env ''x'' demo_results =
     (Inr ''data/reddit_x_comments_2024-01-01_00-00-00.csv'',
      [WriteCsv ''data/reddit_x_comments_2024-01-01_00-00-00.csv'' fields
         [csv_row_of ''x'' demo_pa demo_c1, csv_row_of ''x'' demo_pa demo_c2]])"
  by (simp add: save_comments_csv_def csv_name_def csv_rows_def item_rows_def demo_results_def
        ok_result_def fetch_error_result_def unexpected_result_def demo_env_def)

lemma demo_run:
  "reddit_hot_comments_to_csv demo_env demo_params =
     (Inr \<lparr>summary_subreddit = ''x'', posts_processed = 3, comments_total_returned = 2,
           csv_saved_to = ''data/reddit_x_comments_2024-01-01_00-00-00.csv'',
           max_posts_per_hot_request = 100\<rparr>,
      demo_trace @ [WriteCsv ''data/reddit_x_comments_2024-01-01_00-00-00.csv'' fields
                      [csv_row_of ''x'' demo_pa demo_c1, csv_row_of ''x'' demo_pa demo_c2]])"
proof -
  have p: "subreddit demo_params = ''x''" by (simp add: demo_params_def)
  show ?thesis
    by (simp add: reddit_hot_comments_to_csv_def demo_collect p demo_save make_summary_def)
       (simp add: demo_results_def ok_result_def fetch_error_result_def unexpected_result_def)
qed

section \<open>The Tabular Writer writes one row per comment\<close>

lemma length_item_rows: "length (item_rows sr r) = length (comments r)"
  by (simp add: item_rows_def)

lemma length_csv_rows:
  "length (csv_rows sr results) = sum_list (map (\<lambda>r. length (comments r)) results)"
  by (induction results) (simp_all add: csv_rows_def length_item_rows)

text \<open>
  Claim C3. Whenever the Tabular Writer returns, it has written exactly one artifact,
  whose data rows are the rows of the posts in order: every post contributes as many
  rows as it has comments, so the number of data rows is the sum of the lengths of the
  comment sequences, and a post with no comments (a failed or malformed one included)
  contributes no row.
\<close>

theorem csv_rows_count:
  assumes "save_comments_csv E sr results = (Inr path, evs)"
  shows "evs = [WriteCsv path fields (csv_rows sr results)]
       \<and> length (csv_rows sr results) = sum_list (map (\<lambda>r. length (comments r)) results)
       \<and> (\<forall>r. length (item_rows sr r) = length (comments r))
       \<and> (\<forall>r. comments r = [] \<longrightarrow> item_rows sr r = [])"
proof -
  from assms have "evs = [WriteCsv path fields (csv_rows sr results)]"
    by (auto simp: save_comments_csv_def split: if_splits)
  then show ?thesis
    by (simp add: length_csv_rows length_item_rows item_rows_def)
qed

theorem csv_rows_count_witness:
  "save_comments_csv demo_env ''x'' demo_results =
     (Inr ''data/reddit_x_comments_2024-01-01_00-00-00.csv'',
      [WriteCsv ''data/reddit_x_comments_2024-01-01_00-00-00.csv'' fields
         [csv_row_of ''x'' demo_pa demo_c1, csv_row_of ''x'' demo_pa demo_c2]])
   \<and> length (csv_rows ''x'' demo_results) = 2
   \<and> item_rows ''x'' (fetch_error_result demo_pb ''timed out'') = []
   \<and> item_rows ''x'' (unexpected_result demo_pc) = []"
proof -
  note w = csv_rows_count [OF demo_save]
  have "comments (fetch_error_result demo_pb ''timed out'') = []"
    and "comments (unexpected_result demo_pc) = []"
    by (simp_all add: fetch_error_result_def unexpected_result_def)
  moreover have "sum_list (map (\<lambda>r. length (comments r)) demo_results) = 2"
    by (simp add: demo_results_def ok_result_def fetch_error_result_def unexpected_result_def)
  ultimately show ?thesis using w demo_save by simp
qed

section \<open>The permalink of a post\<close>

text \<open>
  Claim C10. Whenever a Post is built from a listing entry, the entry is an object
  whose \<open>data\<close> is an object (or missing), and the stored permalink is the host prefix
  followed by the upstream permalink, a string; when the upstream permalink is missing
  the stored permalink is the bare prefix. The stored value is a string in every case,
  and it is the value of the \<open>post_permalink\<close> column of every row of the post.
\<close>

theorem permalink_prefixed:
  assumes "post_of_child idx child = Inr p"
  shows "\<exists>d dd. child = JObj d
           \<and> (case map_of d ''data'' of None \<Rightarrow> JObj [] | Some v \<Rightarrow> v) = JObj dd
           \<and> (case map_of dd ''permalink'' of
                None \<Rightarrow> permalink p = ''https://www.reddit.com''
              | Some v \<Rightarrow> (\<exists>s. v = JStr s \<and> permalink p = ''https://www.reddit.com'' @ s))
           \<and> map_of (csv_row_of sr p c) ''post_permalink'' = Some (JStr (permalink p))"
proof -
  from assms obtain data pid ptitle pl pp where
    a: "py_get child ''data'' (JObj []) = Inr data"
    and b: "py_get data ''permalink'' (JStr []) = Inr pl"
    and c: "str_concat host pl = Inr pp"
    and d: "p = \<lparr>post_id = pid, title = ptitle, permalink = pp, index_in_hot = idx\<rparr>"
    unfolding post_of_child_def andThen_Inr_iff by auto
  from a obtain kv where child: "child = JObj kv" by (auto dest: py_get_Inr)
  from b obtain dd where data: "data = JObj dd" by (auto dest: py_get_Inr)
  from c obtain s where pl: "pl = JStr s" and pp: "pp = host @ s" by (auto dest: str_concat_Inr)
  have perm: "permalink p = ''https://www.reddit.com'' @ s" using d pp by (simp add: host_def)
  have "case map_of dd ''permalink'' of None \<Rightarrow> permalink p = ''https://www.reddit.com''
        | Some v \<Rightarrow> (\<exists>s. v = JStr s \<and> permalink p = ''https://www.reddit.com'' @ s)"
    using b data pl perm by (auto split: option.splits)
  moreover have "(case map_of kv ''data'' of None \<Rightarrow> JObj [] | Some v \<Rightarrow> v) = JObj dd"
    using a child data by simp
  moreover have "map_of (csv_row_of sr p c) ''post_permalink'' = Some (JStr (permalink p))"
    by (simp add: csv_row_of_def)
  ultimately show ?thesis using child by blast
qed

theorem permalink_prefixed_witness:
  "post_of_child (Suc (Suc 0)) demo_post_b = Inr demo_pb
   \<and> permalink demo_pb = ''https://www.reddit.com''
   \<and> post_of_child (Suc 0) demo_post_a = Inr demo_pa
   \<and> permalink demo_pa = ''https://www.reddit.com'' @ ''/r/x/a''
   \<and> map_of (csv_row_of ''x'' demo_pa demo_c1) ''post_permalink''
       = Some (JStr ''https://www.reddit.com/r/x/a'')"
proof -
  from permalink_prefixed [OF demo_posts(2), of "''x''" demo_c1]
  have b: "permalink demo_pb = ''https://www.reddit.com''"
    by (auto simp: demo_post_b_def)
  from permalink_prefixed [OF demo_posts(1), of "''x''" demo_c1]
  have a: "permalink demo_pa = ''https://www.reddit.com'' @ ''/r/x/a''"
    and r: "map_of (csv_row_of ''x'' demo_pa demo_c1) ''post_permalink''
              = Some (JStr (permalink demo_pa))"
    by (auto simp: demo_post_a_def)
  show ?thesis using a b r demo_posts by simp
qed

section \<open>The loop over the listing\<close>

lemma post_of_child_index: "post_of_child idx child = Inr p \<Longrightarrow> index_in_hot p = idx"
  unfolding post_of_child_def andThen_Inr_iff by auto

lemma result_posts [simp]:
  "post (fetch_error_result p m) = p" "post (unexpected_result p) = p" "post (ok_result p ex) = p"
  by (simp_all add: fetch_error_result_def unexpected_result_def ok_result_def)

lemma result_comments [simp]:
  "comments (fetch_error_result p m) = []" "comments (unexpected_result p) = []"
  "comments (ok_result p ex) = ex"
  by (simp_all add: fetch_error_result_def unexpected_result_def ok_result_def)

lemma result_status [simp]:
  "status_of (fetch_error_result p m)
     = fetch_error (''Erro ao buscar coment'' @ [a_acute] @ ''rios: '' @ m)"
  "status_of (unexpected_result p) = unexpected_shape"
  "status_of (ok_result p ex) = ok"
  by (simp_all add: status_of_def fetch_error_result_def unexpected_result_def ok_result_def)

lemma process_post_Inr:
  assumes "process_post E P idx child = (Inr r, t)"
  shows "post_of_child idx child = Inr (post r)"
    and "t = request_of P (post r) # sleep_events P"
    and "(\<exists>m. fetch_comments E P idx (post_id (post r)) = Inl m \<and> r = fetch_error_result (post r) m)
       \<or> (\<exists>j. fetch_comments E P idx (post_id (post r)) = Inr j
              \<and> (\<not> is_list j \<or> length (list_items j) < 2) \<and> r = unexpected_result (post r))
       \<or> (\<exists>j ex. fetch_comments E P idx (post_id (post r)) = Inr j
              \<and> is_list j \<and> 2 \<le> length (list_items j) \<and> flatten j = Inr ex
              \<and> r = ok_result (post r) ex)"
  using assms
  by (auto simp: process_post_def split: sum.splits if_splits)


lemma posts_loop_Inr:
  assumes "posts_loop E P idx cs results tr = (Inr rs, t)"
  shows "\<exists>new. rs = results @ new
           \<and> list_all2 (\<lambda>kc r. fst (process_post E P (fst kc) (snd kc)) = Inr r)
                 (zip [idx..<idx + length cs] cs) new
           \<and> t = tr @ concat (map (\<lambda>r. request_of P (post r) # sleep_events P) new)"
  using assms
proof (induction cs arbitrary: idx results tr)
  case Nil
  then show ?case by simp
next
  case (Cons c cs)
  from Cons.prems obtain r tk where
    step: "process_post E P idx c = (Inr r, tk)"
    and rest: "posts_loop E P (Suc idx) cs (results @ [r]) (tr @ tk) = (Inr rs, t)"
    by (auto split: prod.splits sum.splits)
  from Cons.IH [OF rest] obtain new where
    new: "rs = (results @ [r]) @ new"
      "list_all2 (\<lambda>kc r. fst (process_post E P (fst kc) (snd kc)) = Inr r)
         (zip [Suc idx..<Suc idx + length cs] cs) new"
      "t = (tr @ tk) @ concat (map (\<lambda>r. request_of P (post r) # sleep_events P) new)"
    by blast
  have tk: "tk = request_of P (post r) # sleep_events P"
    using process_post_Inr(2) [OF step] .
  have upt: "[idx..<idx + length (c # cs)] = idx # [Suc idx..<Suc idx + length cs]"
    using upt_conv_Cons [of idx "Suc idx + length cs"] by simp
  have "rs = results @ (r # new)" using new(1) by simp
  moreover have "list_all2 (\<lambda>kc r. fst (process_post E P (fst kc) (snd kc)) = Inr r)
         (zip [idx..<idx + length (c # cs)] (c # cs)) (r # new)"
    unfolding upt using step new(2) by simp
  moreover have "t = tr @ concat (map (\<lambda>r. request_of P (post r) # sleep_events P) (r # new))"
    using new(3) tk by simp
  ultimately show ?case by blast
qed

lemma posts_loop_results:
  assumes "posts_loop E P idx cs results tr = (Inr rs, t)"
  shows "\<exists>new. rs = results @ new \<and> length new = length cs
           \<and> (\<forall>k<length cs. \<exists>tk. process_post E P (idx + k) (cs ! k) = (Inr (new ! k), tk))
           \<and> t = tr @ concat (map (\<lambda>r. request_of P (post r) # sleep_events P) new)"
proof -
  from posts_loop_Inr [OF assms] obtain new where
    new: "rs = results @ new"
      "list_all2 (\<lambda>kc r. fst (process_post E P (fst kc) (snd kc)) = Inr r)
         (zip [idx..<idx + length cs] cs) new"
      "t = tr @ concat (map (\<lambda>r. request_of P (post r) # sleep_events P) new)"
    by blast
  from new(2) have len: "length new = length cs"
    by (auto dest: list_all2_lengthD)
  have "\<exists>tk. process_post E P (idx + k) (cs ! k) = (Inr (new ! k), tk)" if "k < length cs" for k
  proof -
    from new(2) that have "fst (process_post E P (fst (zip [idx..<idx + length cs] cs ! k))
              (snd (zip [idx..<idx + length cs] cs ! k))) = Inr (new ! k)"
      by (auto simp: list_all2_conv_all_nth)
    with that have "fst (process_post E P (idx + k) (cs ! k)) = Inr (new ! k)" by simp
    then show ?thesis by (cases "process_post E P (idx + k) (cs ! k)") simp
  qed
  with new len show ?thesis by blast
qed

lemma process_post_not_object:
  "process_post E P idx (JStr s) = (Inl AttributeError, [])"
  by (simp add: process_post_def post_of_child_def)

lemma posts_loop_strs:
  "xs \<noteq> [] \<Longrightarrow> fst (posts_loop E P idx (map (\<lambda>x. JStr (f x)) xs) results tr) = Inl AttributeError"
  by (cases xs) (simp_all add: process_post_not_object)

lemma collect_Inr:
  assumes "collect E P = (Inr rs, t)"
  shows "\<exists>r cs. fetch_listing E P = Inr r \<and> listing_children r = Inr (JList cs) \<and> cs \<noteq> []
           \<and> posts_loop E P 1 cs [] [ListingRequest (subreddit P) (posts_limit P)] = (Inr rs, t)"
proof -
  from assms obtain r items where
    r: "fetch_listing E P = Inr r"
    and it: "andThen (listing_children r) py_iter = Inr items"
    and loop: "posts_loop E P 1 items [] [ListingRequest (subreddit P) (posts_limit P)] = (Inr rs, t)"
    by (auto simp: collect_def split: sum.splits)
  from it obtain ch where ch: "listing_children r = Inr ch" and items: "py_iter ch = Inr items"
    by (auto simp: andThen_Inr_iff)
  from ch have tr: "truthy ch"
    by (auto simp: listing_children_def andThen_Inr_iff split: sum.splits if_splits)
  have "ch = JList items \<and> items \<noteq> []"
  proof (cases ch)
    case (JList xs)
    with items tr show ?thesis by simp
  next
    case (JStr s)
    with items tr have "items = map (\<lambda>c. JStr [c]) s" "s \<noteq> []" by simp_all
    with posts_loop_strs [of s E P 1 "\<lambda>c. [c]" "[]" "[ListingRequest (subreddit P) (posts_limit P)]"] loop
    show ?thesis by simp
  next
    case (JObj kvs)
    with items tr have "items = map (\<lambda>kv. JStr (fst kv)) kvs" "kvs \<noteq> []" by simp_all
    with posts_loop_strs [of kvs E P 1 fst "[]" "[ListingRequest (subreddit P) (posts_limit P)]"] loop
    show ?thesis by simp
  qed (use items in simp_all)
  with r ch loop show ?thesis by blast
qed

lemma collect_results:
  assumes "collect E P = (Inr rs, t)"
  shows "\<exists>r cs. fetch_listing E P = Inr r \<and> listing_children r = Inr (JList cs) \<and> cs \<noteq> []
           \<and> length rs = length cs
           \<and> (\<forall>k<length cs. \<exists>tk. process_post E P (Suc k) (cs ! k) = (Inr (rs ! k), tk))
           \<and> t = ListingRequest (subreddit P) (posts_limit P)
                   # concat (map (\<lambda>r. request_of P (post r) # sleep_events P) rs)"
proof -
  from collect_Inr [OF assms] obtain r cs where
    a: "fetch_listing E P = Inr r" "listing_children r = Inr (JList cs)" "cs \<noteq> []"
    and loop: "posts_loop E P 1 cs [] [ListingRequest (subreddit P) (posts_limit P)] = (Inr rs, t)"
    by blast
  from posts_loop_results [OF loop] have
    "length rs = length cs"
    "\<forall>k<length cs. \<exists>tk. process_post E P (Suc k) (cs ! k) = (Inr (rs ! k), tk)"
    "t = ListingRequest (subreddit P) (posts_limit P)
           # concat (map (\<lambda>r. request_of P (post r) # sleep_events P) rs)"
    by auto
  with a show ?thesis by blast
qed

lemma run_Inr:
  assumes "reddit_hot_comments_to_csv E P = (Inr s, t)"
  shows "\<exists>rs tr. collect E P = (Inr rs, tr) \<and> disk_ok E
           \<and> s = make_summary P rs (csv_name E (subreddit P))
           \<and> t = tr @ [WriteCsv (csv_name E (subreddit P)) fields (csv_rows (subreddit P) rs)]"
  using assms
  by (auto simp: reddit_hot_comments_to_csv_def save_comments_csv_def
           split: prod.splits sum.splits if_splits)

lemma process_post_failed:
  assumes "process_post E P idx child = (Inr r, t)" and "status_of r \<noteq> ok"
  shows "comments r = []"
  using assms
  by (auto simp: process_post_def split: sum.splits if_splits)

section \<open>What a completed run holds\<close>

text \<open>
  Claim C5, as amended. Whenever a run returns its summary, the listing response held a
  non-empty list of entries and \<open>posts_processed\<close> is the number of those entries. The
  code sends \<open>posts_limit\<close> upstream and applies no cap of its own.
\<close>

theorem posts_processed_is_listing_length:
  assumes "reddit_hot_comments_to_csv E P = (Inr s, t)"
  shows "\<exists>r cs. fetch_listing E P = Inr r \<and> listing_children r = Inr (JList cs) \<and> cs \<noteq> []
           \<and> posts_processed s = length cs"
proof -
  from run_Inr [OF assms] obtain rs tr where
    c: "collect E P = (Inr rs, tr)" and s: "s = make_summary P rs (csv_name E (subreddit P))"
    by blast
  from collect_results [OF c] obtain r cs where
    "fetch_listing E P = Inr r" "listing_children r = Inr (JList cs)" "cs \<noteq> []"
    "length rs = length cs"
    by blast
  moreover have "posts_processed s = length rs" using s by (simp add: make_summary_def)
  ultimately show ?thesis by auto
qed

theorem posts_processed_is_listing_length_witness:
  "reddit_hot_comments_to_csv demo_env demo_params = (Inr demo_summary, demo_trace @ [demo_write])
   \<and> posts_processed demo_summary = length [demo_post_a, demo_post_b, demo_post_c]"
proof -
  have run: "reddit_hot_comments_to_csv demo_env demo_params
               = (Inr demo_summary, demo_trace @ [demo_write])"
    using demo_run by (simp add: demo_summary_def demo_write_def demo_csv_def)
  from posts_processed_is_listing_length [OF run] obtain r cs where
    r: "fetch_listing demo_env demo_params = Inr r"
    and cs: "listing_children r = Inr (JList cs)"
    and n: "posts_processed demo_summary = length cs"
    by blast
  from r have "r = \<lparr>status_code = 200, http_error_text = [], json_body = Inr demo_listing\<rparr>"
    by (simp add: demo_fetch_listing)
  with cs have "cs = [demo_post_a, demo_post_b, demo_post_c]"
    by (simp add: demo_listing_children)
  with n run show ?thesis by simp
qed

text \<open>
  Claim C5 as stated fails: a run asked for two posts whose listing response holds three
  entries processes all three.
\<close>

theorem posts_limit_not_enforced:
  "reddit_hot_comments_to_csv demo_env demo_params = (Inr demo_summary, demo_trace @ [demo_write])
   \<and> posts_limit demo_params = 2
   \<and> posts_processed demo_summary = 3
   \<and> \<not> int (posts_processed demo_summary) \<le> posts_limit demo_params"
  using demo_run by (simp add: demo_summary_def demo_write_def demo_csv_def demo_params_def)

text \<open>
  Claim C6. In every run that ends its loop, a result whose status is \<open>fetch_error\<close> or
  \<open>unexpected_shape\<close> has an empty comment sequence.
\<close>

theorem failed_posts_have_no_comments:
  assumes "collect E P = (Inr rs, t)"
    and "r \<in> set rs"
    and "status_of r = unexpected_shape \<or> (\<exists>m. status_of r = fetch_error m)"
  shows "comments r = []"
proof -
  from collect_results [OF assms(1)] obtain cs where
    len: "length rs = length cs"
    and steps: "\<forall>k<length cs. \<exists>tk. process_post E P (Suc k) (cs ! k) = (Inr (rs ! k), tk)"
    by blast
  from assms(2) obtain k where k: "k < length rs" and r: "r = rs ! k"
    by (auto simp: in_set_conv_nth)
  with len steps obtain tk where "process_post E P (Suc k) (cs ! k) = (Inr r, tk)" by auto
  moreover from assms(3) have "status_of r \<noteq> ok" by auto
  ultimately show ?thesis by (rule process_post_failed)
qed

theorem failed_posts_have_no_comments_witness:
  "collect demo_env demo_params = (Inr demo_results, demo_trace)
   \<and> fetch_error_result demo_pb ''timed out'' \<in> set demo_results
   \<and> (\<exists>m. status_of (fetch_error_result demo_pb ''timed out'') = fetch_error m)
   \<and> comments (fetch_error_result demo_pb ''timed out'') = []
   \<and> unexpected_result demo_pc \<in> set demo_results
   \<and> status_of (unexpected_result demo_pc) = unexpected_shape
   \<and> comments (unexpected_result demo_pc) = []"
proof -
  have b: "fetch_error_result demo_pb ''timed out'' \<in> set demo_results"
    and c: "unexpected_result demo_pc \<in> set demo_results"
    by (simp_all add: demo_results_def)
  have sb: "\<exists>m. status_of (fetch_error_result demo_pb ''timed out'') = fetch_error m"
    and sc: "status_of (unexpected_result demo_pc) = unexpected_shape"
    by simp_all
  from sb have "status_of (fetch_error_result demo_pb ''timed out'') = unexpected_shape
      \<or> (\<exists>m. status_of (fetch_error_result demo_pb ''timed out'') = fetch_error m)" ..
  from failed_posts_have_no_comments [OF demo_collect b this]
  have 1: "comments (fetch_error_result demo_pb ''timed out'') = []" .
  from sc have "status_of (unexpected_result demo_pc) = unexpected_shape
      \<or> (\<exists>m. status_of (unexpected_result demo_pc) = fetch_error m)" ..
  from failed_posts_have_no_comments [OF demo_collect c this]
  have 2: "comments (unexpected_result demo_pc) = []" .
  from demo_collect b c sb sc 1 2 show ?thesis by blast
qed

text \<open>
  Claim C7. In every run that ends its loop there is one result per listing entry, in
  the order of the listing: the result at position \<open>k\<close> carries the Post built from the
  entry at position \<open>k\<close>, and its index is \<open>k + 1\<close>, so the indices are 1, 2, ... without
  a gap. The loop only appends: the results it was started with are a prefix of the
  results it ends with, unchanged.
\<close>

theorem indices_follow_listing:
  "(collect E P = (Inr rs, t) \<longrightarrow>
      (\<exists>r cs. fetch_listing E P = Inr r \<and> listing_children r = Inr (JList cs)
         \<and> length rs = length cs
         \<and> map (\<lambda>x. index_in_hot (post x)) rs = [1..<Suc (length cs)]
         \<and> sorted_wrt (<) (map (\<lambda>x. index_in_hot (post x)) rs)
         \<and> (\<forall>k<length cs. post_of_child (Suc k) (cs ! k) = Inr (post (rs ! k)))))
   \<and> (posts_loop E P idx cs0 results tr = (Inr rs0, t0) \<longrightarrow>
        take (length results) rs0 = results)"
proof (intro conjI impI)
  assume c: "collect E P = (Inr rs, t)"
  from collect_results [OF c] obtain r cs where
    a: "fetch_listing E P = Inr r" "listing_children r = Inr (JList cs)"
    and len: "length rs = length cs"
    and steps: "\<forall>k<length cs. \<exists>tk. process_post E P (Suc k) (cs ! k) = (Inr (rs ! k), tk)"
    by blast
  have posts: "post_of_child (Suc k) (cs ! k) = Inr (post (rs ! k))" if "k < length cs" for k
    using steps that process_post_Inr(1) by blast
  have "map (\<lambda>x. index_in_hot (post x)) rs = map Suc [0..<length cs]"
  proof (rule nth_equalityI)
    show "length (map (\<lambda>x. index_in_hot (post x)) rs) = length (map Suc [0..<length cs])"
      using len by simp
  next
    fix k assume "k < length (map (\<lambda>x. index_in_hot (post x)) rs)"
    then have k: "k < length cs" using len by simp
    from post_of_child_index [OF posts [OF k]] k len
    show "map (\<lambda>x. index_in_hot (post x)) rs ! k = map Suc [0..<length cs] ! k"
      by simp
  qed
  then have idx: "map (\<lambda>x. index_in_hot (post x)) rs = [1..<Suc (length cs)]"
    by (simp add: map_Suc_upt)
  have "sorted_wrt (<) (map (\<lambda>x. index_in_hot (post x)) rs)"
    by (simp only: idx sorted_wrt_upt)
  with a len idx posts
  show "\<exists>r cs. fetch_listing E P = Inr r \<and> listing_children r = Inr (JList cs)
         \<and> length rs = length cs
         \<and> map (\<lambda>x. index_in_hot (post x)) rs = [1..<Suc (length cs)]
         \<and> sorted_wrt (<) (map (\<lambda>x. index_in_hot (post x)) rs)
         \<and> (\<forall>k<length cs. post_of_child (Suc k) (cs ! k) = Inr (post (rs ! k)))"
    by blast
next
  assume "posts_loop E P idx cs0 results tr = (Inr rs0, t0)"
  from posts_loop_results [OF this] show "take (length results) rs0 = results" by auto
qed

theorem indices_follow_listing_witness:
  "collect demo_env demo_params = (Inr demo_results, demo_trace)
   \<and> map (\<lambda>x. index_in_hot (post x)) demo_results = [1, 2, 3]
   \<and> posts_loop demo_env demo_params (Suc (Suc 0)) [demo_post_b]
        [ok_result demo_pa [demo_c1, demo_c2]] []
       = (Inr [ok_result demo_pa [demo_c1, demo_c2], fetch_error_result demo_pb ''timed out''],
          [CommentsRequest ''x'' (JStr ''b'') 200 2 ''confidence'', Sleep 250])
   \<and> take 1 [ok_result demo_pa [demo_c1, demo_c2], fetch_error_result demo_pb ''timed out'']
       = [ok_result demo_pa [demo_c1, demo_c2]]"
proof -
  have loop: "posts_loop demo_env demo_params (Suc (Suc 0)) [demo_post_b]
        [ok_result demo_pa [demo_c1, demo_c2]] []
       = (Inr [ok_result demo_pa [demo_c1, demo_c2], fetch_error_result demo_pb ''timed out''],
          [CommentsRequest ''x'' (JStr ''b'') 200 2 ''confidence'', Sleep 250])"
    by (simp add: demo_step_b)
  note w = indices_follow_listing [of demo_env demo_params demo_results demo_trace
      "Suc (Suc 0)" "[demo_post_b]" "[ok_result demo_pa [demo_c1, demo_c2]]" "[]"
      "[ok_result demo_pa [demo_c1, demo_c2], fetch_error_result demo_pb ''timed out'']"
      "[CommentsRequest ''x'' (JStr ''b'') 200 2 ''confidence'', Sleep 250]"]
  from w demo_collect obtain r cs where
    r: "fetch_listing demo_env demo_params = Inr r"
    and cs: "listing_children r = Inr (JList cs)"
    and m: "map (\<lambda>x. index_in_hot (post x)) demo_results = [1..<Suc (length cs)]"
    by blast
  from r have "r = \<lparr>status_code = 200, http_error_text = [], json_body = Inr demo_listing\<rparr>"
    by (simp add: demo_fetch_listing)
  with cs have "cs = [demo_post_a, demo_post_b, demo_post_c]"
    by (simp add: demo_listing_children)
  moreover have "[1..<Suc (length [demo_post_a, demo_post_b, demo_post_c])] = [1, 2, 3::nat]"
    by (simp add: upt_rec numeral_2_eq_2 numeral_3_eq_3)
  ultimately have 1: "map (\<lambda>x. index_in_hot (post x)) demo_results = [1, 2, 3]"
    using m by (simp only:)
  from w loop have 2: "take 1 [ok_result demo_pa [demo_c1, demo_c2], fetch_error_result demo_pb ''timed out'']
       = [ok_result demo_pa [demo_c1, demo_c2]]"
    by simp
  from demo_collect 1 loop 2 show ?thesis by blast
qed

section \<open>A failed comment fetch stays local\<close>



section \<open>A failed listing fetch ends the run\<close>

text \<open>
  Claim C4. When the listing request raises, or its response has a status that
  \<open>raise_for_status\<close> rejects, or its listing has no entries, the run raises an
  \<open>HTTPException\<close> and its only event is the listing request: no comment request was
  issued and no file written. The status is that of the response when there is one,
  500 when \<open>requests.get\<close> raised, and 404 for the empty listing.
\<close>

theorem listing_failure_aborts:
  "(listing_net E (subreddit P) (posts_limit P) = GetRaised c m \<longrightarrow>
      (\<exists>detail. reddit_hot_comments_to_csv E P
         = (Inl (HTTPException 500 detail), [ListingRequest (subreddit P) (posts_limit P)])))
   \<and> (listing_net E (subreddit P) (posts_limit P) = GotResponse r \<and> raises_for_status r \<longrightarrow>
      (\<exists>detail. reddit_hot_comments_to_csv E P
         = (Inl (HTTPException (status_code r) detail),
            [ListingRequest (subreddit P) (posts_limit P)])))
   \<and> (listing_net E (subreddit P) (posts_limit P) = GotResponse r \<and> \<not> raises_for_status r
        \<and> json_body r = Inr posts_json
        \<and> py_get posts_json ''data'' (JObj []) = Inr d
        \<and> py_get d ''children'' (JList []) = Inr (JList []) \<longrightarrow>
      reddit_hot_comments_to_csv E P
         = (Inl (HTTPException 404 ''Nenhum post encontrado nesse subreddit.''),
            [ListingRequest (subreddit P) (posts_limit P)]))"
proof (intro conjI impI)
  assume "listing_net E (subreddit P) (posts_limit P) = GetRaised c m"
  then have "\<exists>detail. fetch_listing E P = Inl (HTTPException 500 detail)"
    by (cases c) (simp_all add: fetch_listing_def)
  then show "\<exists>detail. reddit_hot_comments_to_csv E P
         = (Inl (HTTPException 500 detail), [ListingRequest (subreddit P) (posts_limit P)])"
    by (auto simp: reddit_hot_comments_to_csv_def collect_def)
next
  assume "listing_net E (subreddit P) (posts_limit P) = GotResponse r \<and> raises_for_status r"
  then have "\<exists>detail. fetch_listing E P = Inl (HTTPException (status_code r) detail)"
    by (simp add: fetch_listing_def)
  then show "\<exists>detail. reddit_hot_comments_to_csv E P
         = (Inl (HTTPException (status_code r) detail),
            [ListingRequest (subreddit P) (posts_limit P)])"
    by (auto simp: reddit_hot_comments_to_csv_def collect_def)
next
  assume a: "listing_net E (subreddit P) (posts_limit P) = GotResponse r \<and> \<not> raises_for_status r
        \<and> json_body r = Inr posts_json
        \<and> py_get posts_json ''data'' (JObj []) = Inr d
        \<and> py_get d ''children'' (JList []) = Inr (JList [])"
  then have "fetch_listing E P = Inr r"
    by (simp add: fetch_listing_def)
  moreover from a have "listing_children r
      = Inl (HTTPException 404 ''Nenhum post encontrado nesse subreddit.'')"
    by (simp add: listing_children_def)
  ultimately show "reddit_hot_comments_to_csv E P
         = (Inl (HTTPException 404 ''Nenhum post encontrado nesse subreddit.''),
            [ListingRequest (subreddit P) (posts_limit P)])"
    by (simp add: reddit_hot_comments_to_csv_def collect_def)
qed

theorem listing_failure_aborts_witness:
  "listing_net (listing_env (GetRaised OtherException ''unreachable''))
       (subreddit demo_params) (posts_limit demo_params)
     = GetRaised OtherException ''unreachable''
   \<and> (\<exists>detail. reddit_hot_comments_to_csv (listing_env (GetRaised OtherException ''unreachable''))
          demo_params = (Inl (HTTPException 500 detail), [ListingRequest ''x'' 2]))
   \<and> listing_net (listing_env (GotResponse down_response))
       (subreddit demo_params) (posts_limit demo_params) = GotResponse down_response
   \<and> raises_for_status down_response
   \<and> (\<exists>detail. reddit_hot_comments_to_csv (listing_env (GotResponse down_response))
          demo_params = (Inl (HTTPException 503 detail), [ListingRequest ''x'' 2]))
   \<and> listing_net (listing_env (ok_response empty_listing))
       (subreddit demo_params) (posts_limit demo_params) = ok_response empty_listing
   \<and> reddit_hot_comments_to_csv (listing_env (ok_response empty_listing)) demo_params
       = (Inl (HTTPException 404 ''Nenhum post encontrado nesse subreddit.''),
          [ListingRequest ''x'' 2])"
proof -
  have p: "subreddit demo_params = ''x''" "posts_limit demo_params = 2"
    by (simp_all add: demo_params_def)
  have n: "listing_net (listing_env out) sr lim = out" for out sr lim
    by (simp add: listing_env_def)
  have down: "raises_for_status down_response" "status_code down_response = 503"
    by (simp_all add: raises_for_status_def down_response_def)
  have e: "ok_response empty_listing
             = GotResponse \<lparr>status_code = 200, http_error_text = [], json_body = Inr empty_listing\<rparr>"
    "\<not> raises_for_status \<lparr>status_code = 200, http_error_text = [], json_body = Inr empty_listing\<rparr>"
    "py_get empty_listing ''data'' (JObj []) = Inr (JObj [(''children'', JList [])])"
    "py_get (JObj [(''children'', JList [])]) ''children'' (JList []) = Inr (JList [])"
    by (simp_all add: ok_response_def raises_for_status_def empty_listing_def)
  from listing_failure_aborts [of "listing_env (GetRaised OtherException ''unreachable'')"
      demo_params OtherException "''unreachable''"]
  have 1: "\<exists>detail. reddit_hot_comments_to_csv (listing_env (GetRaised OtherException ''unreachable''))
          demo_params = (Inl (HTTPException 500 detail), [ListingRequest ''x'' 2])"
    by (simp add: n p)
  from listing_failure_aborts [of "listing_env (GotResponse down_response)"
      demo_params _ _ down_response]
  have 2: "\<exists>detail. reddit_hot_comments_to_csv (listing_env (GotResponse down_response))
          demo_params = (Inl (HTTPException 503 detail), [ListingRequest ''x'' 2])"
    by (simp add: n p down)
  from listing_failure_aborts [of "listing_env (ok_response empty_listing)"
      demo_params _ _
      "\<lparr>status_code = 200, http_error_text = [], json_body = Inr empty_listing\<rparr>"
      empty_listing "JObj [(''children'', JList [])]"]
  have 3: "reddit_hot_comments_to_csv (listing_env (ok_response empty_listing)) demo_params
       = (Inl (HTTPException 404 ''Nenhum post encontrado nesse subreddit.''),
          [ListingRequest ''x'' 2])"
    using e by (simp add: n p)
  from 1 2 3 down(1) show ?thesis by (simp add: n)
qed

section \<open>The Flattener\<close>

lemma comment_of_object:
  "comment_of (JObj d) =
     Inr \<lparr>comment_id = field_or_null d ''id'', author = field_or_null d ''author'',
          body = field_or_null d ''body'', score = field_or_null d ''score'',
          created_utc = field_or_null d ''created_utc'',
          parent_id = field_or_null d ''parent_id'',
          is_submitter = field_or_null d ''is_submitter''\<rparr>"
  by (simp add: comment_of_def field_or_null_def)

lemma extract_step_skip:
  assumes "map_of kvs ''kind'' \<noteq> Some (JStr ''t1'')"
  shows "extract_loop (JObj kvs # cs) acc = extract_loop cs acc"
  using assms by (auto split: option.splits)

lemma extract_step_keep:
  assumes "map_of kvs ''kind'' = Some (JStr ''t1'')" and "readable_node (JObj kvs)"
  shows "extract_loop (JObj kvs # cs) acc
           = extract_loop cs (acc @ [spec_comment_of_node (JObj kvs)])"
proof (cases "map_of kvs ''data''")
  case None
  with assms(1) show ?thesis
    by (simp add: comment_of_object spec_comment_of_node_def)
next
  case (Some v)
  with assms obtain d where "v = JObj d" by (cases v) auto
  with Some assms(1) show ?thesis
    by (simp add: comment_of_object spec_comment_of_node_def)
qed

lemma extract_loop_readable:
  assumes "\<forall>c\<in>set nodes. readable_node c"
  shows "extract_loop nodes acc
           = Inr (acc @ map spec_comment_of_node (filter spec_is_comment_node nodes))"
  using assms
proof (induction nodes arbitrary: acc)
  case Nil
  then show ?case by simp
next
  case (Cons c cs)
  then have "readable_node c" by simp
  then obtain kvs where c: "c = JObj kvs" by (cases c) simp_all
  show ?case
  proof (cases "map_of kvs ''kind'' = Some (JStr ''t1'')")
    case True
    with Cons c show ?thesis
      using extract_step_keep [of kvs cs acc] by simp
  next
    case False
    with Cons c show ?thesis
      using extract_step_skip [of kvs cs acc] by simp
  qed
qed

lemma flatten_readable:
  assumes "is_list j" and "2 \<le> length (list_items j)"
    and "py_get (list_items j ! 1) ''data'' (JObj []) = Inr d"
    and "py_get d ''children'' (JList []) = Inr (JList nodes)"
    and "\<forall>c\<in>set nodes. readable_node c"
  shows "flatten j = Inr (map spec_comment_of_node (filter spec_is_comment_node nodes))"
proof -
  from assms(1,2) have "py_index j 1 = Inr (list_items j ! 1)"
    by (simp add: py_index_def)
  with assms(3,4) have "comments_children j = Inr (JList nodes)"
    by (simp add: comments_children_def)
  then show ?thesis
    by (simp add: flatten_def extract_loop_readable [OF assms(5)])
qed

text \<open>
  Claim C2, as amended. Let a post be read and its comment fetch return the response
  \<open>j\<close>. If \<open>j\<close> is not a sequence of at least two elements the post gets the
  \<open>unexpected_shape\<close> result, without comments. Otherwise, when the second element is
  an object, its \<open>data\<close> (an empty object when missing) is an object and its \<open>children\<close>
  (an empty list when missing) is a list of readable nodes, the comments of the post are
  those of the nodes of kind \<open>t1\<close>, in the order of the list, each field being the one of
  the node's \<open>data\<close> or null when it is missing.
\<close>

theorem flattener_on_readable_response:
  assumes "post_of_child idx child = Inr p"
    and "fetch_comments E P idx (post_id p) = Inr j"
  shows "(\<not> is_list j \<or> length (list_items j) < 2 \<longrightarrow>
            fst (process_post E P idx child) = Inr (unexpected_result p)
            \<and> status_of (unexpected_result p) = unexpected_shape
            \<and> comments (unexpected_result p) = [])
       \<and> (is_list j \<and> 2 \<le> length (list_items j)
            \<and> py_get (list_items j ! 1) ''data'' (JObj []) = Inr d
            \<and> py_get d ''children'' (JList []) = Inr (JList nodes)
            \<and> (\<forall>c\<in>set nodes. readable_node c) \<longrightarrow>
            flatten j = Inr (map spec_comment_of_node (filter spec_is_comment_node nodes))
            \<and> fst (process_post E P idx child)
                = Inr (ok_result p (map spec_comment_of_node (filter spec_is_comment_node nodes)))
            \<and> status_of (ok_result p
                 (map spec_comment_of_node (filter spec_is_comment_node nodes))) = ok)"
proof (intro conjI impI)
  assume "\<not> is_list j \<or> length (list_items j) < 2"
  with assms show "fst (process_post E P idx child) = Inr (unexpected_result p)"
    by (auto simp: process_post_def)
next
  assume a: "is_list j \<and> 2 \<le> length (list_items j)
            \<and> py_get (list_items j ! 1) ''data'' (JObj []) = Inr d
            \<and> py_get d ''children'' (JList []) = Inr (JList nodes)
            \<and> (\<forall>c\<in>set nodes. readable_node c)"
  then show f: "flatten j = Inr (map spec_comment_of_node (filter spec_is_comment_node nodes))"
    using flatten_readable [of j d nodes] by blast
  from a have "\<not> (\<not> is_list j \<or> length (list_items j) < 2)" by auto
  with assms f show "fst (process_post E P idx child)
      = Inr (ok_result p (map spec_comment_of_node (filter spec_is_comment_node nodes)))"
    by (simp add: process_post_def)
qed simp_all

lemma demo_nodes:
  "map spec_comment_of_node (filter spec_is_comment_node [demo_node_1, demo_node_more, demo_node_2])
     = [demo_c1, demo_c2]"
  "\<forall>c\<in>set [demo_node_1, demo_node_more, demo_node_2]. readable_node c"
  by (simp_all add: demo_node_1_def demo_node_more_def demo_node_2_def demo_c1_def demo_c2_def
        spec_comment_of_node_def field_or_null_def)

theorem flattener_on_readable_response_witness:
  "post_of_child (Suc 0) demo_post_a = Inr demo_pa
   \<and> fetch_comments demo_env demo_params (Suc 0) (post_id demo_pa) = Inr demo_forest
   \<and> is_list demo_forest \<and> 2 \<le> length (list_items demo_forest)
   \<and> readable_node demo_node_1 \<and> readable_node demo_node_more \<and> readable_node demo_node_2
   \<and> flatten demo_forest = Inr [demo_c1, demo_c2]
   \<and> fst (process_post demo_env demo_params (Suc 0) demo_post_a)
       = Inr (ok_result demo_pa [demo_c1, demo_c2])
   \<and> post_of_child (Suc (Suc (Suc 0))) demo_post_c = Inr demo_pc
   \<and> fetch_comments demo_env demo_params (Suc (Suc (Suc 0))) (post_id demo_pc)
       = Inr (JList [JObj []])
   \<and> length (list_items (JList [JObj []])) < 2
   \<and> fst (process_post demo_env demo_params (Suc (Suc (Suc 0))) demo_post_c)
       = Inr (unexpected_result demo_pc)"
proof -
  have s: "is_list demo_forest" "2 \<le> length (list_items demo_forest)"
    "py_get (list_items demo_forest ! 1) ''data'' (JObj [])
       = Inr (JObj [(''children'', JList [demo_node_1, demo_node_more, demo_node_2])])"
    "py_get (JObj [(''children'', JList [demo_node_1, demo_node_more, demo_node_2])])
         ''children'' (JList [])
       = Inr (JList [demo_node_1, demo_node_more, demo_node_2])"
    by (simp_all add: demo_forest_def)
  from flattener_on_readable_response [OF demo_posts(1) demo_fetches(1),
      of "JObj [(''children'', JList [demo_node_1, demo_node_more, demo_node_2])]"
         "[demo_node_1, demo_node_more, demo_node_2]"] s demo_nodes
  have 1: "flatten demo_forest = Inr [demo_c1, demo_c2]"
    and 2: "fst (process_post demo_env demo_params (Suc 0) demo_post_a)
       = Inr (ok_result demo_pa [demo_c1, demo_c2])"
    by simp_all
  have "\<not> is_list (JList [JObj []]) \<or> length (list_items (JList [JObj []])) < 2" by simp
  with flattener_on_readable_response [OF demo_posts(3) demo_fetches(3), of _ _]
  have 3: "fst (process_post demo_env demo_params (Suc (Suc (Suc 0))) demo_post_c)
       = Inr (unexpected_result demo_pc)"
    by blast
  from demo_posts(1,3) demo_fetches(1,3) s(1,2) demo_nodes(2) 1 2 3 show ?thesis by simp
qed

lemma drifted_shape:
  "is_list drifted_forest" "2 \<le> length (list_items drifted_forest)"
  by (simp_all add: drifted_forest_def)

lemma drifted_flatten: "flatten drifted_forest = Inl AttributeError"
  by (simp add: flatten_def comments_children_def py_index_def drifted_forest_def)

lemma drifted_fetch:
  "fetch_comments (comments_env (ok_response drifted_forest)) demo_params k pid
     = Inr drifted_forest"
  by (simp add: fetch_comments_def comments_env_def ok_response_def raises_for_status_def)

lemma drifted_step:
  "process_post (comments_env (ok_response drifted_forest)) demo_params (Suc 0) demo_post_a
     = (Inl AttributeError, [CommentsRequest ''x'' (JStr ''a'') 200 2 ''confidence''])"
  using drifted_shape
  by (simp add: process_post_def demo_posts drifted_fetch drifted_flatten demo_effects)

lemma drifted_run:
  "reddit_hot_comments_to_csv (comments_env (ok_response drifted_forest)) demo_params
     = (Inl AttributeError,
        [ListingRequest ''x'' 2, CommentsRequest ''x'' (JStr ''a'') 200 2 ''confidence''])"
proof -
  have l: "fetch_listing (comments_env (ok_response drifted_forest)) demo_params =
     Inr \<lparr>status_code = 200, http_error_text = [], json_body = Inr demo_listing\<rparr>"
    by (simp add: fetch_listing_def comments_env_def demo_env_def ok_response_def
          raises_for_status_def)
  have "collect (comments_env (ok_response drifted_forest)) demo_params
       = (Inl AttributeError,
          [ListingRequest ''x'' 2, CommentsRequest ''x'' (JStr ''a'') 200 2 ''confidence''])"
    by (simp add: collect_def l demo_listing_children drifted_step) (simp add: demo_params_def)
  then show ?thesis
    by (simp add: reddit_hot_comments_to_csv_def)
qed

text \<open>
  Claim C2 as stated fails: a response of two elements whose second element is not an
  object is neither marked \<open>unexpected_shape\<close> nor flattened. The \<open>get\<close> of line 130 raises
  AttributeError, which nothing catches, and the run ends without writing a file.
\<close>

theorem unreadable_response_aborts:
  "is_list drifted_forest \<and> 2 \<le> length (list_items drifted_forest)
   \<and> flatten drifted_forest = Inl AttributeError
   \<and> process_post (comments_env (ok_response drifted_forest)) demo_params (Suc 0) demo_post_a
       = (Inl AttributeError, [CommentsRequest ''x'' (JStr ''a'') 200 2 ''confidence''])
   \<and> reddit_hot_comments_to_csv (comments_env (ok_response drifted_forest)) demo_params
       = (Inl AttributeError,
          [ListingRequest ''x'' 2, CommentsRequest ''x'' (JStr ''a'') 200 2 ''confidence''])"
  using drifted_shape drifted_flatten drifted_step drifted_run by simp

lemma process_post_fetched:
  assumes "process_post E P idx child = (Inr r, t)"
    and "fetch_comments E P idx (post_id (post r)) = Inr j"
  shows "(\<not> is_list j \<or> length (list_items j) < 2) \<and> comments r = []
       \<or> is_list j \<and> 2 \<le> length (list_items j) \<and> flatten j = Inr (comments r)"
proof -
  from process_post_Inr(3) [OF assms(1)] assms(2)
  consider "r = unexpected_result (post r)" "\<not> is_list j \<or> length (list_items j) < 2"
    | ex where "r = ok_result (post r) ex" "is_list j" "2 \<le> length (list_items j)"
        "flatten j = Inr ex"
    by auto
  then show ?thesis
  proof cases
    case 1
    from 1(1) have "comments r = comments (unexpected_result (post r))" by simp
    with 1(2) show ?thesis by simp
  next
    case 2
    from 2(1) have "comments r = comments (ok_result (post r) ex)" by simp
    then have "ex = comments r" by simp
    with 2(2-4) show ?thesis by blast
  qed
qed

text \<open>
  Claim C9. The comments of a result are a function of the raw response alone: two
  iterations, in any two runs, at any two positions and for any two posts, whose comment
  fetches return the same response append results with the same comment sequence, and
  for a response of at least two elements that sequence is the value of \<open>flatten\<close>.
\<close>

theorem flattening_depends_on_response_only:
  assumes "process_post E P idx child = (Inr r, t)"
    and "process_post E' P' idx' child' = (Inr r', t')"
    and "fetch_comments E P idx (post_id (post r)) = Inr j"
    and "fetch_comments E' P' idx' (post_id (post r')) = Inr j"
  shows "comments r = comments r'
       \<and> (is_list j \<and> 2 \<le> length (list_items j) \<longrightarrow> flatten j = Inr (comments r))"
  using process_post_fetched [OF assms(1,3)] process_post_fetched [OF assms(2,4)]
  by auto


theorem flattening_depends_on_response_only_witness:
  "process_post demo_env demo_params (Suc 0) demo_post_a =
     (Inr (ok_result demo_pa [demo_c1, demo_c2]),
      [CommentsRequest ''x'' (JStr ''a'') 200 2 ''confidence'', Sleep 250])
   \<and> process_post (comments_env (ok_response demo_forest)) (demo_params\<lparr>polite_delay_ms := 0\<rparr>)
        (Suc (Suc (Suc 0))) demo_post_c =
       (Inr (ok_result demo_pc [demo_c1, demo_c2]),
        [CommentsRequest ''x'' (JStr ''c'') 200 2 ''confidence''])
   \<and> fetch_comments demo_env demo_params (Suc 0)
        (post_id (post (ok_result demo_pa [demo_c1, demo_c2]))) = Inr demo_forest
   \<and> fetch_comments (comments_env (ok_response demo_forest))
        (demo_params\<lparr>polite_delay_ms := 0\<rparr>) (Suc (Suc (Suc 0)))
        (post_id (post (ok_result demo_pc [demo_c1, demo_c2]))) = Inr demo_forest
   \<and> comments (ok_result demo_pa [demo_c1, demo_c2])
       = comments (ok_result demo_pc [demo_c1, demo_c2])
   \<and> flatten demo_forest = Inr (comments (ok_result demo_pa [demo_c1, demo_c2]))"
proof -
  have l: "is_list demo_forest" "2 \<le> length (list_items demo_forest)"
    by (simp_all add: demo_forest_def)
  have f: "fetch_comments (comments_env (ok_response demo_forest))
             (demo_params\<lparr>polite_delay_ms := 0\<rparr>) k pid = Inr demo_forest" for k pid
    by (simp add: fetch_comments_def comments_env_def ok_response_def raises_for_status_def)
  have r: "request_of (demo_params\<lparr>polite_delay_ms := 0\<rparr>) demo_pc
             = CommentsRequest ''x'' (JStr ''c'') 200 2 ''confidence''"
    by (simp add: request_of_def demo_params_def demo_pc_def)
  have s: "sleep_events (demo_params\<lparr>polite_delay_ms := 0\<rparr>) = []"
    by (simp add: sleep_events_def)
  have c: "process_post (comments_env (ok_response demo_forest))
        (demo_params\<lparr>polite_delay_ms := 0\<rparr>) (Suc (Suc (Suc 0))) demo_post_c =
       (Inr (ok_result demo_pc [demo_c1, demo_c2]),
        [CommentsRequest ''x'' (JStr ''c'') 200 2 ''confidence''])"
    using l by (simp add: process_post_def demo_posts f r s demo_flatten)
  have fa: "fetch_comments demo_env demo_params (Suc 0)
        (post_id (post (ok_result demo_pa [demo_c1, demo_c2]))) = Inr demo_forest"
    by (rule demo_fetches(1))
  have fc: "fetch_comments (comments_env (ok_response demo_forest))
        (demo_params\<lparr>polite_delay_ms := 0\<rparr>) (Suc (Suc (Suc 0)))
        (post_id (post (ok_result demo_pc [demo_c1, demo_c2]))) = Inr demo_forest"
    by (rule f)
  from flattening_depends_on_response_only [OF demo_step_a c fa fc] l
  have "comments (ok_result demo_pa [demo_c1, demo_c2])
       = comments (ok_result demo_pc [demo_c1, demo_c2])"
    and "flatten demo_forest = Inr (comments (ok_result demo_pa [demo_c1, demo_c2]))"
    by blast+
  with demo_step_a c fa fc show ?thesis by blast
qed

section \<open>The delay between requests\<close>

lemma no_sleep_in_requests:
  "Sleep d \<notin> set (concat (map (\<lambda>r. [request_of P (post r)]) rs))"
  by (induction rs) (simp_all add: request_of_def)

lemma process_post_Inl:
  assumes "process_post E P idx child = (Inl e, tk)"
  shows "tk = [] \<or> (\<exists>p. tk = [request_of P p])"
  using assms
  by (auto simp: process_post_def split: sum.splits if_splits)

lemma index_column:
  "map (\<lambda>row. map_of row ''post_index_in_hot'')
       (concat (map (\<lambda>r. map (csv_row_of sr (post r)) (comments r)) rs))
     = concat (map (\<lambda>r. replicate (length (comments r))
                            (Some (JInt (int (index_in_hot (post r)))))) rs)"
proof (induction rs)
  case Nil
  then show ?case by simp
next
  case (Cons r rs)
  have "map (\<lambda>row. map_of row ''post_index_in_hot'') (map (csv_row_of sr (post r)) cs)
          = replicate (length cs) (Some (JInt (int (index_in_hot (post r)))))" for cs
    by (induction cs) (simp_all add: csv_row_of_def)
  with Cons show ?case by simp
qed

lemma quiet_steps:
  "process_post demo_env (demo_params\<lparr>polite_delay_ms := 0\<rparr>) (Suc 0) demo_post_a =
     (Inr (ok_result demo_pa [demo_c1, demo_c2]),
      [CommentsRequest ''x'' (JStr ''a'') 200 2 ''confidence''])"
  "process_post demo_env (demo_params\<lparr>polite_delay_ms := 0\<rparr>) (Suc (Suc 0)) demo_post_b =
     (Inr (fetch_error_result demo_pb ''timed out''),
      [CommentsRequest ''x'' (JStr ''b'') 200 2 ''confidence''])"
  "process_post demo_env (demo_params\<lparr>polite_delay_ms := 0\<rparr>) (Suc (Suc (Suc 0))) demo_post_c =
     (Inr (unexpected_result demo_pc),
      [CommentsRequest ''x'' (JStr ''c'') 200 2 ''confidence''])"
proof -
  have f: "fetch_comments demo_env (demo_params\<lparr>polite_delay_ms := 0\<rparr>) k pid
             = fetch_comments demo_env demo_params k pid" for k pid
    by (simp add: fetch_comments_def)
  have r: "request_of (demo_params\<lparr>polite_delay_ms := 0\<rparr>) p = request_of demo_params p" for p
    by (simp add: request_of_def)
  have s: "sleep_events (demo_params\<lparr>polite_delay_ms := 0\<rparr>) = []"
    by (simp add: sleep_events_def)
  have l: "is_list demo_forest" "length (list_items demo_forest) = 2"
    by (simp_all add: demo_forest_def)
  show "process_post demo_env (demo_params\<lparr>polite_delay_ms := 0\<rparr>) (Suc 0) demo_post_a =
     (Inr (ok_result demo_pa [demo_c1, demo_c2]),
      [CommentsRequest ''x'' (JStr ''a'') 200 2 ''confidence''])"
    using l by (simp add: process_post_def demo_posts f r s demo_fetches demo_flatten demo_effects)
  show "process_post demo_env (demo_params\<lparr>polite_delay_ms := 0\<rparr>) (Suc (Suc 0)) demo_post_b =
     (Inr (fetch_error_result demo_pb ''timed out''),
      [CommentsRequest ''x'' (JStr ''b'') 200 2 ''confidence''])"
    by (simp add: process_post_def demo_posts f r s demo_fetches demo_effects)
  show "process_post demo_env (demo_params\<lparr>polite_delay_ms := 0\<rparr>) (Suc (Suc (Suc 0))) demo_post_c =
     (Inr (unexpected_result demo_pc),
      [CommentsRequest ''x'' (JStr ''c'') 200 2 ''confidence''])"
    by (simp add: process_post_def demo_posts f r s demo_fetches demo_effects)
qed

lemma quiet_collect:
  "collect demo_env (demo_params\<lparr>polite_delay_ms := 0\<rparr>) =
     (Inr demo_results,
      [ListingRequest ''x'' 2,
       CommentsRequest ''x'' (JStr ''a'') 200 2 ''confidence'',
       CommentsRequest ''x'' (JStr ''b'') 200 2 ''confidence'',
       CommentsRequest ''x'' (JStr ''c'') 200 2 ''confidence''])"
proof -
  have l: "fetch_listing demo_env (demo_params\<lparr>polite_delay_ms := 0\<rparr>) =
     Inr \<lparr>status_code = 200, http_error_text = [], json_body = Inr demo_listing\<rparr>"
    by (simp add: fetch_listing_def demo_env_def ok_response_def raises_for_status_def)
  show ?thesis
    by (simp add: collect_def l demo_listing_children quiet_steps demo_results_def)
       (simp add: demo_params_def)
qed

lemma quiet_run:
  "reddit_hot_comments_to_csv demo_env (demo_params\<lparr>polite_delay_ms := 0\<rparr>) =
     (Inr demo_summary,
      [ListingRequest ''x'' 2,
       CommentsRequest ''x'' (JStr ''a'') 200 2 ''confidence'',
       CommentsRequest ''x'' (JStr ''b'') 200 2 ''confidence'',
       CommentsRequest ''x'' (JStr ''c'') 200 2 ''confidence'',
       demo_write])"
proof -
  have p: "subreddit (demo_params\<lparr>polite_delay_ms := 0\<rparr>) = ''x''"
    by (simp add: demo_params_def)
  show ?thesis
    by (simp add: reddit_hot_comments_to_csv_def quiet_collect p demo_save make_summary_def)
       (simp add: demo_results_def ok_result_def fetch_error_result_def unexpected_result_def
          demo_summary_def demo_write_def demo_csv_def)
qed

text \<open>
  Claim C8, as amended. An iteration that appends a result (for a flattened response, a
  failed fetch or an unexpected response alike) issues its comment request and then,
  when \<open>polite_delay_ms\<close> is positive, calls \<open>time.sleep\<close> with that delay. An iteration
  that raises instead, because the entry could not be read or because the fetch
  succeeded and the flattening raised, does not sleep. The events of a run that returns
  are the listing request, then per result and in order the request and the sleep, then
  the one file written; with \<open>polite_delay_ms = 0\<close> the run never sleeps. With or without
  the delay the rows of the file written are the rows of the results in the order of the
  listing: the results carry the indices 1, 2, ..., and the index column of the file
  repeats the index of each result once per comment, result after result.
\<close>

theorem delay_after_every_appending_iteration:
  "(process_post E P idx child = (Inr r, tk) \<longrightarrow>
      tk = request_of P (post r)
             # (if 0 < polite_delay_ms P then [Sleep (polite_delay_ms P)] else []))
   \<and> (process_post E P idx child = (Inl e, tk) \<longrightarrow> (\<forall>d. Sleep d \<notin> set tk))
   \<and> (collect E P = (Inr rs, tr) \<and> reddit_hot_comments_to_csv E P = (Inr s, t) \<longrightarrow>
        tr = ListingRequest (subreddit P) (posts_limit P)
               # concat (map (\<lambda>r. request_of P (post r)
                      # (if 0 < polite_delay_ms P then [Sleep (polite_delay_ms P)] else [])) rs)
        \<and> t = tr @ [WriteCsv (csv_saved_to s) fields
                      (concat (map (\<lambda>r. map (csv_row_of (subreddit P) (post r)) (comments r)) rs))]
        \<and> map (\<lambda>x. index_in_hot (post x)) rs = [1..<Suc (length rs)]
        \<and> map (\<lambda>row. map_of row ''post_index_in_hot'')
              (concat (map (\<lambda>r. map (csv_row_of (subreddit P) (post r)) (comments r)) rs))
            = concat (map (\<lambda>r. replicate (length (comments r))
                                   (Some (JInt (int (index_in_hot (post r)))))) rs)
        \<and> (polite_delay_ms P = 0 \<longrightarrow> (\<forall>d. Sleep d \<notin> set t)))"
proof (intro conjI impI)
  have sl: "sleep_events P = (if 0 < polite_delay_ms P then [Sleep (polite_delay_ms P)] else [])"
    by (simp add: sleep_events_def)
  {
    assume "process_post E P idx child = (Inr r, tk)"
    from process_post_Inr(2) [OF this]
    show "tk = request_of P (post r)
             # (if 0 < polite_delay_ms P then [Sleep (polite_delay_ms P)] else [])"
      by (simp only: sl)
  }
  {
    assume "process_post E P idx child = (Inl e, tk)"
    from process_post_Inl [OF this] show "\<forall>d. Sleep d \<notin> set tk"
      by (auto simp: request_of_def)
  }
  assume both: "collect E P = (Inr rs, tr) \<and> reddit_hot_comments_to_csv E P = (Inr s, t)"
  then have c: "collect E P = (Inr rs, tr)" and run: "reddit_hot_comments_to_csv E P = (Inr s, t)"
    by simp_all
  from collect_results [OF c] obtain cs where
    len: "length rs = length cs"
    and steps: "\<forall>k<length cs. \<exists>tk. process_post E P (Suc k) (cs ! k) = (Inr (rs ! k), tk)"
    and tr: "tr = ListingRequest (subreddit P) (posts_limit P)
                   # concat (map (\<lambda>r. request_of P (post r) # sleep_events P) rs)"
    by blast
  from tr show tr': "tr = ListingRequest (subreddit P) (posts_limit P)
              # concat (map (\<lambda>r. request_of P (post r)
                     # (if 0 < polite_delay_ms P then [Sleep (polite_delay_ms P)] else [])) rs)"
    by (simp only: sl)
  from run_Inr [OF run] c have
    s: "s = make_summary P rs (csv_name E (subreddit P))"
    and t: "t = tr @ [WriteCsv (csv_name E (subreddit P)) fields (csv_rows (subreddit P) rs)]"
    by auto
  from s have path: "csv_saved_to s = csv_name E (subreddit P)"
    by (simp add: make_summary_def)
  have rows: "csv_rows (subreddit P) rs
      = concat (map (\<lambda>r. map (csv_row_of (subreddit P) (post r)) (comments r)) rs)"
  proof -
    have "item_rows (subreddit P) = (\<lambda>r. map (csv_row_of (subreddit P) (post r)) (comments r))"
      by (rule ext) (simp add: item_rows_def)
    then show ?thesis by (simp add: csv_rows_def)
  qed
  from t path rows
  show t': "t = tr @ [WriteCsv (csv_saved_to s) fields
                      (concat (map (\<lambda>r. map (csv_row_of (subreddit P) (post r)) (comments r)) rs))]"
    by simp
  show "map (\<lambda>row. map_of row ''post_index_in_hot'')
              (concat (map (\<lambda>r. map (csv_row_of (subreddit P) (post r)) (comments r)) rs))
            = concat (map (\<lambda>r. replicate (length (comments r))
                                   (Some (JInt (int (index_in_hot (post r)))))) rs)"
    by (rule index_column)
  {
    assume "polite_delay_ms P = 0"
    with tr' have "tr = ListingRequest (subreddit P) (posts_limit P)
              # concat (map (\<lambda>r. [request_of P (post r)]) rs)"
      by simp
    with t' show "\<forall>d. Sleep d \<notin> set t"
      using no_sleep_in_requests [of _ P rs] by simp
  }
  have "map (\<lambda>x. index_in_hot (post x)) rs = map Suc [0..<length rs]"
  proof (rule nth_equalityI)
    show "length (map (\<lambda>x. index_in_hot (post x)) rs) = length (map Suc [0..<length rs])"
      by simp
  next
    fix k assume "k < length (map (\<lambda>x. index_in_hot (post x)) rs)"
    then have k: "k < length cs" using len by simp
    with steps obtain tk where "process_post E P (Suc k) (cs ! k) = (Inr (rs ! k), tk)" by blast
    from post_of_child_index [OF process_post_Inr(1) [OF this]] k len
    show "map (\<lambda>x. index_in_hot (post x)) rs ! k = map Suc [0..<length rs] ! k"
      by simp
  qed
  then show "map (\<lambda>x. index_in_hot (post x)) rs = [1..<Suc (length rs)]"
    by (simp add: map_Suc_upt)
qed


lemma demo_run_summary:
  "reddit_hot_comments_to_csv demo_env demo_params = (Inr demo_summary, demo_trace @ [demo_write])"
  using demo_run by (simp add: demo_summary_def demo_write_def demo_csv_def)

theorem delay_after_every_appending_iteration_witness:
  "process_post demo_env demo_params (Suc (Suc 0)) demo_post_b =
     (Inr (fetch_error_result demo_pb ''timed out''),
      [CommentsRequest ''x'' (JStr ''b'') 200 2 ''confidence'', Sleep 250])
   \<and> process_post (comments_env (ok_response drifted_forest)) demo_params (Suc 0) demo_post_a
       = (Inl AttributeError, [CommentsRequest ''x'' (JStr ''a'') 200 2 ''confidence''])
   \<and> Sleep 250 \<notin> set [CommentsRequest ''x'' (JStr ''a'') 200 2 ''confidence'']
   \<and> collect demo_env demo_params = (Inr demo_results, demo_trace)
   \<and> reddit_hot_comments_to_csv demo_env demo_params
       = (Inr demo_summary, demo_trace @ [demo_write])
   \<and> demo_trace = ListingRequest ''x'' 2
       # concat (map (\<lambda>r. [request_of demo_params (post r), Sleep 250]) demo_results)
   \<and> demo_trace @ [demo_write]
       = demo_trace @ [WriteCsv (csv_saved_to demo_summary) fields
           (concat (map (\<lambda>r. map (csv_row_of ''x'' (post r)) (comments r)) demo_results))]
   \<and> map (\<lambda>x. index_in_hot (post x)) demo_results = [1..<Suc (length demo_results)]
   \<and> map (\<lambda>row. map_of row ''post_index_in_hot'')
         (concat (map (\<lambda>r. map (csv_row_of ''x'' (post r)) (comments r)) demo_results))
       = [Some (JInt 1), Some (JInt 1)]
   \<and> collect demo_env (demo_params\<lparr>polite_delay_ms := 0\<rparr>) =
       (Inr demo_results,
        [ListingRequest ''x'' 2,
         CommentsRequest ''x'' (JStr ''a'') 200 2 ''confidence'',
         CommentsRequest ''x'' (JStr ''b'') 200 2 ''confidence'',
         CommentsRequest ''x'' (JStr ''c'') 200 2 ''confidence''])
   \<and> reddit_hot_comments_to_csv demo_env (demo_params\<lparr>polite_delay_ms := 0\<rparr>) =
       (Inr demo_summary,
        [ListingRequest ''x'' 2,
         CommentsRequest ''x'' (JStr ''a'') 200 2 ''confidence'',
         CommentsRequest ''x'' (JStr ''b'') 200 2 ''confidence'',
         CommentsRequest ''x'' (JStr ''c'') 200 2 ''confidence'',
         demo_write])
   \<and> Sleep 250 \<notin> set [ListingRequest ''x'' 2,
         CommentsRequest ''x'' (JStr ''a'') 200 2 ''confidence'',
         CommentsRequest ''x'' (JStr ''b'') 200 2 ''confidence'',
         CommentsRequest ''x'' (JStr ''c'') 200 2 ''confidence'',
         demo_write]"
proof -
  have p: "polite_delay_ms demo_params = 250" "subreddit demo_params = ''x''"
    "posts_limit demo_params = 2"
    by (simp_all add: demo_params_def)
  note w1 = delay_after_every_appending_iteration [of demo_env demo_params "Suc (Suc 0)"
      demo_post_b "fetch_error_result demo_pb ''timed out''"
      "[CommentsRequest ''x'' (JStr ''b'') 200 2 ''confidence'', Sleep 250]" AttributeError
      demo_results demo_trace demo_summary "demo_trace @ [demo_write]"]
  from w1 demo_collect demo_run_summary have
    a: "demo_trace = ListingRequest (subreddit demo_params) (posts_limit demo_params)
              # concat (map (\<lambda>r. request_of demo_params (post r)
                     # (if 0 < polite_delay_ms demo_params
                        then [Sleep (polite_delay_ms demo_params)] else [])) demo_results)"
    and b: "demo_trace @ [demo_write]
       = demo_trace @ [WriteCsv (csv_saved_to demo_summary) fields
           (concat (map (\<lambda>r. map (csv_row_of (subreddit demo_params) (post r)) (comments r))
              demo_results))]"
    and c: "map (\<lambda>x. index_in_hot (post x)) demo_results = [1..<Suc (length demo_results)]"
    and d: "map (\<lambda>row. map_of row ''post_index_in_hot'')
              (concat (map (\<lambda>r. map (csv_row_of (subreddit demo_params) (post r)) (comments r))
                 demo_results))
            = concat (map (\<lambda>r. replicate (length (comments r))
                                   (Some (JInt (int (index_in_hot (post r)))))) demo_results)"
    by blast+
  from a have 1: "demo_trace = ListingRequest ''x'' 2
       # concat (map (\<lambda>r. [request_of demo_params (post r), Sleep 250]) demo_results)"
    by (simp add: p)
  from b have 2: "demo_trace @ [demo_write]
       = demo_trace @ [WriteCsv (csv_saved_to demo_summary) fields
           (concat (map (\<lambda>r. map (csv_row_of ''x'' (post r)) (comments r)) demo_results))]"
    by (simp only: p)
  have "concat (map (\<lambda>r. replicate (length (comments r))
                                   (Some (JInt (int (index_in_hot (post r)))))) demo_results)
          = [Some (JInt 1), Some (JInt 1)]"
    by (simp add: demo_results_def demo_pa_def)
  with d have 3: "map (\<lambda>row. map_of row ''post_index_in_hot'')
         (concat (map (\<lambda>r. map (csv_row_of ''x'' (post r)) (comments r)) demo_results))
       = [Some (JInt 1), Some (JInt 1)]"
    by (simp only: p)
  note w2 = delay_after_every_appending_iteration [of
      "comments_env (ok_response drifted_forest)" demo_params "Suc 0" demo_post_a
      "fetch_error_result demo_pb ''timed out''"
      "[CommentsRequest ''x'' (JStr ''a'') 200 2 ''confidence'']" AttributeError]
  from w2 drifted_step
  have 4: "Sleep 250 \<notin> set [CommentsRequest ''x'' (JStr ''a'') 200 2 ''confidence'']"
    by blast
  note w3 = delay_after_every_appending_iteration [of demo_env
      "demo_params\<lparr>polite_delay_ms := 0\<rparr>" "Suc (Suc 0)" demo_post_b
      "fetch_error_result demo_pb ''timed out''"
      "[CommentsRequest ''x'' (JStr ''b'') 200 2 ''confidence'']" AttributeError
      demo_results
      "[ListingRequest ''x'' 2,
         CommentsRequest ''x'' (JStr ''a'') 200 2 ''confidence'',
         CommentsRequest ''x'' (JStr ''b'') 200 2 ''confidence'',
         CommentsRequest ''x'' (JStr ''c'') 200 2 ''confidence'']"
      demo_summary
      "[ListingRequest ''x'' 2,
         CommentsRequest ''x'' (JStr ''a'') 200 2 ''confidence'',
         CommentsRequest ''x'' (JStr ''b'') 200 2 ''confidence'',
         CommentsRequest ''x'' (JStr ''c'') 200 2 ''confidence'',
         demo_write]"]
  have z: "polite_delay_ms (demo_params\<lparr>polite_delay_ms := 0\<rparr>) = 0" by simp
  from w3 quiet_collect quiet_run z
  have 5: "Sleep 250 \<notin> set [ListingRequest ''x'' 2,
         CommentsRequest ''x'' (JStr ''a'') 200 2 ''confidence'',
         CommentsRequest ''x'' (JStr ''b'') 200 2 ''confidence'',
         CommentsRequest ''x'' (JStr ''c'') 200 2 ''confidence'',
         demo_write]"
    by blast
  from demo_step_b drifted_step 4 demo_collect demo_run_summary 1 2 c 3 quiet_collect quiet_run 5
  show ?thesis by blast
qed

text \<open>
  Claim C8 as stated fails: with a delay of 250 ms, an iteration whose comment fetch
  succeeds and whose response cannot be flattened raises before the only
  \<open>time.sleep\<close> of its branch (lines 161 and 162), and the run ends without sleeping.
\<close>

theorem no_delay_after_failed_flattening:
  "polite_delay_ms demo_params = 250
   \<and> fetch_comments (comments_env (ok_response drifted_forest)) demo_params (Suc 0)
        (post_id demo_pa) = Inr drifted_forest
   \<and> process_post (comments_env (ok_response drifted_forest)) demo_params (Suc 0) demo_post_a
       = (Inl AttributeError, [CommentsRequest ''x'' (JStr ''a'') 200 2 ''confidence''])
   \<and> Sleep 250 \<notin> set [CommentsRequest ''x'' (JStr ''a'') 200 2 ''confidence'']
   \<and> reddit_hot_comments_to_csv (comments_env (ok_response drifted_forest)) demo_params
       = (Inl AttributeError,
          [ListingRequest ''x'' 2, CommentsRequest ''x'' (JStr ''a'') 200 2 ''confidence''])
   \<and> Sleep 250 \<notin> set [ListingRequest ''x'' 2,
                         CommentsRequest ''x'' (JStr ''a'') 200 2 ''confidence'']"
  using drifted_fetch [of "Suc 0" "post_id demo_pa"] drifted_step drifted_run
  by (simp add: demo_params_def)

end
